theory Spec2Isabelle
  imports Main
begin

section \<open>Time\<close>

text \<open>
  A naive \<^verbatim>\<open>datetime\<close> is the number of microseconds since the epoch, which is
  the resolution of Python's \<^verbatim>\<open>datetime\<close>; a \<^verbatim>\<open>timedelta\<close> is a
  signed number of microseconds. \<^verbatim>\<open>pytz.utc.localize\<close> reads a naive value as
  UTC, so an aware UTC instant is the same number.
\<close>

type_synonym datetime = int
type_synonym timedelta = int

definition usec_per_second :: int where
  "usec_per_second = 1000000"

definition seconds_per_day :: int where
  "seconds_per_day = 86400"

text \<open>
  \<^verbatim>\<open>timedelta.seconds\<close>: the seconds field of the normalised
  (days, seconds, microseconds) triple, between 0 and 86399.
\<close>

definition td_seconds :: "timedelta \<Rightarrow> int" where
  "td_seconds d = (d div usec_per_second) mod seconds_per_day"

text \<open>\<^verbatim>\<open>datetime.date()\<close>: the day number of a naive datetime.\<close>

definition date :: "datetime \<Rightarrow> int" where
  "date t = t div (seconds_per_day * usec_per_second)"

section \<open>Interval Matcher\<close>

text \<open>\<^verbatim>\<open>Interval = namedtuple('Interval', ['start', 'end'])\<close>\<close>

record Interval =
  ivl_start :: datetime
  ivl_end :: datetime

text \<open>
  \<^verbatim>\<open>
  def match_lookup_intervals(intervals, clock_start, clock_end):
      for ivl in intervals:
          if clock_start >= ivl.start and clock_start < ivl.end:
              end = clock_end if clock_end < ivl.end else ivl.end
              return Interval(clock_start, end)
      return None
  \<close>
\<close>

fun match_lookup_intervals :: "Interval list \<Rightarrow> datetime \<Rightarrow> datetime \<Rightarrow> Interval option" where
  "match_lookup_intervals [] clock_start clock_end = None"
| "match_lookup_intervals (ivl # intervals) clock_start clock_end =
     (if clock_start \<ge> ivl_start ivl \<and> clock_start < ivl_end ivl
      then Some \<lparr>ivl_start = clock_start,
                 ivl_end = (if clock_end < ivl_end ivl then clock_end else ivl_end ivl)\<rparr>
      else match_lookup_intervals intervals clock_start clock_end)"

text \<open>The contract in the words of the specification: the first window, in the given
  order, that contains the recorded start.\<close>

definition contains_start :: "datetime \<Rightarrow> Interval \<Rightarrow> bool" where
  "contains_start clock_start ivl \<longleftrightarrow> ivl_start ivl \<le> clock_start \<and> clock_start < ivl_end ivl"

definition first_window :: "Interval list \<Rightarrow> datetime \<Rightarrow> Interval option" where
  "first_window intervals clock_start = find (contains_start clock_start) intervals"

section \<open>Python values\<close>

text \<open>
  A value that is a \<^verbatim>\<open>str\<close> or \<^verbatim>\<open>None\<close> is a \<open>string option\<close>. Python's
  \<^verbatim>\<open>a or b\<close> yields \<open>a\<close> when \<open>a\<close> is truthy (here: a non-empty string) and
  \<open>b\<close> otherwise, whatever \<open>b\<close> is.
\<close>

definition truthy :: "string option \<Rightarrow> bool" where
  "truthy v = (case v of None \<Rightarrow> False | Some s \<Rightarrow> s \<noteq> [])"

definition py_or :: "string option \<Rightarrow> string option \<Rightarrow> string option" where
  "py_or a b = (if truthy a then a else b)"

section \<open>Outline nodes and settings\<close>

text \<open>A recorded clock entry of the outline parser: \<^verbatim>\<open>start\<close>, \<^verbatim>\<open>end\<close>,
  \<^verbatim>\<open>duration\<close>.\<close>

record ClockEntry =
  clk_start :: datetime
  clk_end :: datetime
  duration :: timedelta

text \<open>
  An outline node with the attributes the program reads. The parent reference of a
  parsed tree leads to the root in finitely many steps, so a node carries its chain of
  ancestors. The parser holds the tags of a node as a set of strings, and
  \<^verbatim>\<open>for tag in tags\<close> meets them in the order the set iterates in the running
  process: \<open>tags\<close> is that order, for one run. Another run of the program on the same
  document may meet the same set in another order (\<open>same_node\<close> below).
\<close>

datatype OutlineNode =
  OutlineNode (heading: string) (tags: "string list") (properties: "string \<rightharpoonup> string")
    (clock: "ClockEntry list") (parent: "OutlineNode option")

text \<open>
  The resolved settings. A compiled pattern of \<^verbatim>\<open>settings['project_regexps']\<close> is
  taken as the function \<^verbatim>\<open>re.findall(pattern, _)\<close> computes for it. A key of the
  \<^verbatim>\<open>[tags]\<close> section may have no value (\<^verbatim>\<open>allow_no_value=True\<close>), which
  reads as \<^verbatim>\<open>None\<close>.
\<close>

record Settings =
  project_regexps :: "(string \<Rightarrow> string list) list"
  settings_tags :: "string \<rightharpoonup> string option"
  org_files :: "string list"

section \<open>Issue Resolver\<close>

text \<open>
  \<^verbatim>\<open>
  def find_issue_in_heading(node, settings):
      heading = node.heading
      for check_re in settings['project_regexps']:
          for match in re.findall(check_re, heading):
              return match
      return None
  \<close>
\<close>

fun heading_loop :: "(string \<Rightarrow> string list) list \<Rightarrow> string \<Rightarrow> string option" where
  "heading_loop [] h = None"
| "heading_loop (check_re # res) h =
     (case check_re h of
        [] \<Rightarrow> heading_loop res h
      | match # _ \<Rightarrow> Some match)"

definition find_issue_in_heading :: "OutlineNode \<Rightarrow> Settings \<Rightarrow> string option" where
  "find_issue_in_heading node settings = heading_loop (project_regexps settings) (heading node)"

text \<open>
  \<^verbatim>\<open>
  def find_issue_in_property(node, settings):
      if not hasattr(node, 'properties'):
          return None
      return node.properties.get('jira-task')
  \<close>
  Every node of the model has properties.
\<close>

definition find_issue_in_property :: "OutlineNode \<Rightarrow> Settings \<Rightarrow> string option" where
  "find_issue_in_property node settings = properties node ''jira-task''"

text \<open>
  \<^verbatim>\<open>
  def find_issue_by_tag(node, settings):
      tags = node.tags
      for tag in tags:
          if tag in settings['tags']:
              return settings['tags'][tag]
  \<close>
\<close>

fun tag_loop :: "string list \<Rightarrow> (string \<rightharpoonup> string option) \<Rightarrow> string option" where
  "tag_loop [] m = None"
| "tag_loop (tag # ts) m =
     (case m tag of
        Some v \<Rightarrow> v
      | None \<Rightarrow> tag_loop ts m)"

definition find_issue_by_tag :: "OutlineNode \<Rightarrow> Settings \<Rightarrow> string option" where
  "find_issue_by_tag node settings = tag_loop (tags node) (settings_tags settings)"

text \<open>
  \<^verbatim>\<open>
  def find_issue_in_parent(node, settings):
      node = node.parent
      if node and hasattr(node, 'heading'):
          return find_jira_issue(node, settings)
      return None

  def find_jira_issue(node, settings):
      jira_issue = (
          find_issue_in_property(node, settings) or
          find_issue_in_heading(node, settings) or
          find_issue_by_tag(node, settings) or
          find_issue_in_parent(node, settings)
      )
      return jira_issue
  \<close>
\<close>

lemma size_parent: "parent node = Some p \<Longrightarrow> size p < size node"
  by (cases node) simp

function find_issue_in_parent :: "OutlineNode \<Rightarrow> Settings \<Rightarrow> string option"
  and find_jira_issue :: "OutlineNode \<Rightarrow> Settings \<Rightarrow> string option" where
  "find_issue_in_parent node settings =
     (case parent node of
        Some p \<Rightarrow> find_jira_issue p settings
      | None \<Rightarrow> None)"
| "find_jira_issue node settings =
     py_or (find_issue_in_property node settings)
       (py_or (find_issue_in_heading node settings)
          (py_or (find_issue_by_tag node settings)
             (find_issue_in_parent node settings)))"
  by pat_completeness auto
termination
  by (relation "measure (\<lambda>x. case x of Inl (n, _) \<Rightarrow> 2 * size n | Inr (n, _) \<Rightarrow> 2 * size n + 1)")
    (auto dest!: size_parent)

text \<open>The number of calls of \<^verbatim>\<open>find_jira_issue\<close> that resolving a node makes:
  one for the node, and those for its parent when the first three strategies yield
  nothing.\<close>

fun find_jira_issue_calls :: "OutlineNode \<Rightarrow> Settings \<Rightarrow> nat" where
  "find_jira_issue_calls (OutlineNode h ts ps cs par) settings =
     1 + (if truthy (py_or (find_issue_in_property (OutlineNode h ts ps cs par) settings)
              (py_or (find_issue_in_heading (OutlineNode h ts ps cs par) settings)
                 (find_issue_by_tag (OutlineNode h ts ps cs par) settings)))
          then 0
          else (case par of None \<Rightarrow> 0 | Some p \<Rightarrow> find_jira_issue_calls p settings))"

text \<open>The ancestors of a node, nearest first.\<close>

fun ancestors :: "OutlineNode \<Rightarrow> OutlineNode list" where
  "ancestors (OutlineNode h ts ps cs None) = []"
| "ancestors (OutlineNode h ts ps cs (Some p)) = p # ancestors p"

text \<open>What the first three strategies yield for the node itself.\<close>

definition own_issue :: "OutlineNode \<Rightarrow> Settings \<Rightarrow> string option" where
  "own_issue node settings =
     py_or (find_issue_in_property node settings)
       (py_or (find_issue_in_heading node settings) (find_issue_by_tag node settings))"

section \<open>Remote tracker\<close>

text \<open>
  The remote tracker client is used through three operations: fetch an issue, list the
  work-logs of an issue, create a work-log. The tracker is a store from issue keys to the
  work-logs of the issue; a key outside its domain is an unknown issue, whose fetch
  raises. A work-log's \<^verbatim>\<open>started\<close> is an instant, in microseconds since the epoch
  in UTC.
\<close>

datatype error = JIRAError | IOError

record Worklog =
  started :: datetime
  timeSpentSeconds :: int
  comment :: string

type_synonym Jira = "string \<rightharpoonup> Worklog list"

definition jira_issue :: "Jira \<Rightarrow> string \<Rightarrow> error + string" where
  "jira_issue jira key = (case jira key of None \<Rightarrow> Inl JIRAError | Some _ \<Rightarrow> Inr key)"

definition jira_worklogs :: "Jira \<Rightarrow> string \<Rightarrow> Worklog list" where
  "jira_worklogs jira issue = (case jira issue of None \<Rightarrow> [] | Some ws \<Rightarrow> ws)"

definition jira_add_worklog ::
  "Jira \<Rightarrow> string \<Rightarrow> datetime \<Rightarrow> int \<Rightarrow> string \<Rightarrow> (error + unit) \<times> Jira" where
  "jira_add_worklog jira issue st secs descr =
     (case jira issue of
        None \<Rightarrow> (Inl JIRAError, jira)
      | Some ws \<Rightarrow>
          (Inr (), jira(issue \<mapsto> ws @ [\<lparr>started = st, timeSpentSeconds = secs, comment = descr\<rparr>])))"

section \<open>Submission Gate\<close>

text \<open>
  \<^verbatim>\<open>
  def send_interval_to_jira(jira_issue, interval, description, query_jira, send_data):
      issue = None
      if query_jira:
          issue = jira.issue(jira_issue)
          for worklog in jira.worklogs(issue):
              worklog_started = arrow.get(worklog.started).datetime
              interval_start_utc = pytz.utc.localize(interval.start)
              if worklog_started == interval_start_utc:
                  return False
      if send_data and (interval.end-interval.start).seconds:
          if not issue:
              issue = jira.issue(jira_issue)
          if (interval.end-interval.start).seconds:
              jira.add_worklog(issue=jira_issue, started=interval.start,
                  timeSpentSeconds=(interval.end-interval.start).seconds,
                  comment=description)
              return True
      return False
  \<close>
  The result is the returned flag or the exception raised, with the tracker as the call
  leaves it.
\<close>

fun worklog_loop :: "Worklog list \<Rightarrow> Interval \<Rightarrow> bool" where
  "worklog_loop [] interval = False"
| "worklog_loop (worklog # ws) interval =
     (if started worklog = ivl_start interval then True else worklog_loop ws interval)"

definition send_part ::
  "Jira \<Rightarrow> string \<Rightarrow> Interval \<Rightarrow> string \<Rightarrow> bool \<Rightarrow> string option \<Rightarrow> (error + bool) \<times> Jira" where
  "send_part jira key interval description send_data issue =
     (if send_data \<and> td_seconds (ivl_end interval - ivl_start interval) \<noteq> 0 then
        (case (case issue of None \<Rightarrow> jira_issue jira key | Some i \<Rightarrow> Inr i) of
           Inl e \<Rightarrow> (Inl e, jira)
         | Inr _ \<Rightarrow>
             if td_seconds (ivl_end interval - ivl_start interval) \<noteq> 0 then
               (case jira_add_worklog jira key (ivl_start interval)
                       (td_seconds (ivl_end interval - ivl_start interval)) description of
                  (Inl e, jira') \<Rightarrow> (Inl e, jira')
                | (Inr _, jira') \<Rightarrow> (Inr True, jira'))
             else (Inr False, jira))
      else (Inr False, jira))"

definition send_interval_to_jira ::
  "Jira \<Rightarrow> string \<Rightarrow> Interval \<Rightarrow> string \<Rightarrow> bool \<Rightarrow> bool \<Rightarrow> (error + bool) \<times> Jira" where
  "send_interval_to_jira jira key interval description query_jira send_data =
     (if query_jira then
        (case jira_issue jira key of
           Inl e \<Rightarrow> (Inl e, jira)
         | Inr issue \<Rightarrow>
             if worklog_loop (jira_worklogs jira issue) interval then (Inr False, jira)
             else send_part jira key interval description send_data (Some issue))
      else send_part jira key interval description send_data None)"

section \<open>Reconciliation Driver\<close>

text \<open>
  A \<^verbatim>\<open>for x in xs:\<close> loop whose body updates the accumulators and the tracker:
  the bodies run in order, and an exception raised by one ends the loop with the tracker as
  that body left it.
\<close>

fun for_each ::
  "('a \<Rightarrow> 's \<Rightarrow> Jira \<Rightarrow> (error + 's) \<times> Jira) \<Rightarrow> 'a list \<Rightarrow> 's \<Rightarrow> Jira \<Rightarrow> (error + 's) \<times> Jira" where
  "for_each body [] st jira = (Inr st, jira)"
| "for_each body (x # xs) st jira =
     (case body x st jira of
        (Inl e, jira') \<Rightarrow> (Inl e, jira')
      | (Inr st', jira') \<Rightarrow> for_each body xs st' jira')"

text \<open>The parsed command line: the requested intervals and the two run-mode flags
  (\<^verbatim>\<open>args.query_jira\<close>, \<^verbatim>\<open>args.send_data_to_jira\<close>).\<close>

record Args =
  args_intervals :: "Interval list"
  args_query_jira :: bool
  args_send_data_to_jira :: bool

text \<open>The four counters of a day, and the \<^verbatim>\<open>defaultdict\<close> that holds them by date:
  reading a missing date yields zeroed counters.\<close>

record DayStats =
  day_invoice_time :: timedelta
  day_skipped_time :: timedelta
  day_cumulative_time :: timedelta
  day_added_time :: timedelta

definition zero_day :: DayStats where
  "zero_day = \<lparr>day_invoice_time = 0, day_skipped_time = 0, day_cumulative_time = 0,
     day_added_time = 0\<rparr>"

definition day_of :: "(int \<rightharpoonup> DayStats) \<Rightarrow> int \<Rightarrow> DayStats" where
  "day_of m k = (case m k of None \<Rightarrow> zero_day | Some d \<Rightarrow> d)"

definition task_of :: "(string option \<rightharpoonup> timedelta) \<Rightarrow> string option \<Rightarrow> timedelta" where
  "task_of m k = (case m k of None \<Rightarrow> 0 | Some t \<Rightarrow> t)"

text \<open>The accumulators of \<^verbatim>\<open>send_data_to_jira\<close>.\<close>

record Stats =
  invoice_time :: timedelta
  skipped_time :: timedelta
  cumulative_time :: timedelta
  per_day :: "int \<rightharpoonup> DayStats"
  per_task :: "string option \<rightharpoonup> timedelta"

definition zero_stats :: Stats where
  "zero_stats = \<lparr>invoice_time = 0, skipped_time = 0, cumulative_time = 0,
     per_day = Map.empty, per_task = Map.empty\<rparr>"

text \<open>
  The body of \<^verbatim>\<open>for clocked in node.clock\<close>:
  \<^verbatim>\<open>
  matched_interval = match_lookup_intervals(args.intervals, clocked.start, clocked.end)
  if matched_interval:
      if skip:
          skipped_time += clocked.duration
          per_day[clocked.start.date()]['skipped_time'] += clocked.duration
      else:
          invoice_time += clocked.duration
          per_day[clocked.start.date()]['invoice_time'] += clocked.duration
      per_day[clocked.start.date()]['cumulative_time'] += clocked.duration
      cumulative_time += clocked.duration
      jira_issue = find_jira_issue(node, settings)
      per_task[jira_issue] += clocked.duration
      if jira_issue and not skip:
          added = send_interval_to_jira(
              jira_issue, matched_interval, node.heading, args.query_jira, args.send_data_to_jira)
          if added:
              per_day[clocked.start.date()]['added_time'] += clocked.duration
  \<close>
  An exception of the gate ends the run: the accumulators are lost, the tracker stays as
  it is.
\<close>

definition clock_body ::
  "Args \<Rightarrow> Settings \<Rightarrow> OutlineNode \<Rightarrow> bool \<Rightarrow> ClockEntry \<Rightarrow> Stats \<Rightarrow> Jira
     \<Rightarrow> (error + Stats) \<times> Jira" where
  "clock_body args settings node skip clocked st jira =
     (case match_lookup_intervals (args_intervals args) (clk_start clocked) (clk_end clocked) of
        None \<Rightarrow> (Inr st, jira)
      | Some matched_interval \<Rightarrow>
          (let day = date (clk_start clocked);
               st1 =
                 (if skip then
                    st\<lparr>skipped_time := skipped_time st + duration clocked,
                       per_day := (per_day st)(day \<mapsto> (day_of (per_day st) day)
                         \<lparr>day_skipped_time :=
                            day_skipped_time (day_of (per_day st) day) + duration clocked\<rparr>)\<rparr>
                  else
                    st\<lparr>invoice_time := invoice_time st + duration clocked,
                       per_day := (per_day st)(day \<mapsto> (day_of (per_day st) day)
                         \<lparr>day_invoice_time :=
                            day_invoice_time (day_of (per_day st) day) + duration clocked\<rparr>)\<rparr>);
               st2 =
                 st1\<lparr>per_day := (per_day st1)(day \<mapsto> (day_of (per_day st1) day)
                        \<lparr>day_cumulative_time :=
                           day_cumulative_time (day_of (per_day st1) day) + duration clocked\<rparr>),
                     cumulative_time := cumulative_time st1 + duration clocked\<rparr>;
               issue = find_jira_issue node settings;
               st3 =
                 st2\<lparr>per_task := (per_task st2)(issue \<mapsto>
                        task_of (per_task st2) issue + duration clocked)\<rparr>
           in
             if truthy issue \<and> \<not> skip then
               (case send_interval_to_jira jira (the issue) matched_interval (heading node)
                       (args_query_jira args) (args_send_data_to_jira args) of
                  (Inl e, jira') \<Rightarrow> (Inl e, jira')
                | (Inr added, jira') \<Rightarrow>
                    (Inr (if added then
                            st3\<lparr>per_day := (per_day st3)(day \<mapsto> (day_of (per_day st3) day)
                                  \<lparr>day_added_time :=
                                     day_added_time (day_of (per_day st3) day)
                                       + duration clocked\<rparr>)\<rparr>
                          else st3),
                     jira'))
             else (Inr st3, jira)))"

text \<open>
  The body of \<^verbatim>\<open>for node in root[1:]\<close>:
  \<^verbatim>\<open>
  skip = False
  if node.properties.get('jira-skip'):
      skip = True
  if not node.clock:
      continue
  for clocked in node.clock: ...
  \<close>
\<close>

definition node_body ::
  "Args \<Rightarrow> Settings \<Rightarrow> OutlineNode \<Rightarrow> Stats \<Rightarrow> Jira \<Rightarrow> (error + Stats) \<times> Jira" where
  "node_body args settings node st jira =
     (let skip = truthy (properties node ''jira-skip'') in
      if clock node = [] then (Inr st, jira)
      else for_each (clock_body args settings node skip) (clock node) st jira)"

text \<open>
  The body of \<^verbatim>\<open>for path in settings['org files']\<close>. The file system is a map from
  a path to the node sequence of the parsed document, the root first; loading a missing
  file raises. \<^verbatim>\<open>root[1:]\<close> leaves the root out.
\<close>

definition file_body ::
  "Args \<Rightarrow> Settings \<Rightarrow> (string \<rightharpoonup> OutlineNode list) \<Rightarrow> string \<Rightarrow> Stats \<Rightarrow> Jira
     \<Rightarrow> (error + Stats) \<times> Jira" where
  "file_body args settings files path st jira =
     (case files path of
        None \<Rightarrow> (Inl IOError, jira)
      | Some root \<Rightarrow> for_each (node_body args settings) (drop 1 root) st jira)"

text \<open>\<^verbatim>\<open>send_data_to_jira(args, settings)\<close>, up to the report: the accumulators (or
  the exception that ended the run) and the tracker after the run.\<close>

definition send_data_to_jira ::
  "Args \<Rightarrow> Settings \<Rightarrow> (string \<rightharpoonup> OutlineNode list) \<Rightarrow> Jira \<Rightarrow> (error + Stats) \<times> Jira" where
  "send_data_to_jira args settings files jira =
     for_each (file_body args settings files) (org_files settings) zero_stats jira"

section \<open>Notions used in the statements\<close>

text \<open>A clock entry is matched when the matcher answers for it.\<close>

definition matched :: "Args \<Rightarrow> ClockEntry \<Rightarrow> bool" where
  "matched args c \<longleftrightarrow>
     match_lookup_intervals (args_intervals args) (clk_start c) (clk_end c) \<noteq> None"

text \<open>The recorded time of the matched entries of a clock list.\<close>

definition matched_time :: "Args \<Rightarrow> ClockEntry list \<Rightarrow> timedelta" where
  "matched_time args cs = sum_list (map duration (filter (matched args) cs))"

text \<open>The skip flag of a node, as the driver reads it.\<close>

definition node_skip :: "OutlineNode \<Rightarrow> bool" where
  "node_skip node = truthy (properties node ''jira-skip'')"

text \<open>The nodes a run visits: for every configured file, in order, the nodes of the
  document but the root.\<close>

definition run_nodes :: "Settings \<Rightarrow> (string \<rightharpoonup> OutlineNode list) \<Rightarrow> OutlineNode list" where
  "run_nodes settings files =
     concat (map (\<lambda>path. case files path of None \<Rightarrow> [] | Some root \<Rightarrow> drop 1 root)
       (org_files settings))"

text \<open>The recorded time of the matched clock entries of the given nodes that satisfy
  a condition on the node and the entry.\<close>

definition counted_time ::
  "Args \<Rightarrow> (OutlineNode \<Rightarrow> ClockEntry \<Rightarrow> bool) \<Rightarrow> OutlineNode list \<Rightarrow> timedelta" where
  "counted_time args P nodes =
     sum_list (map (\<lambda>node. sum_list (map duration
        (filter (\<lambda>c. matched args c \<and> P node c) (clock node)))) nodes)"

text \<open>The counters of a run that take part in the totals, what each reads from the
  accumulators, and the matched entries each counts.\<close>

datatype counter =
  Cumulative | Invoiced | Skipped | DayCumulative int | DayInvoiced int | DaySkipped int

fun read_counter :: "counter \<Rightarrow> Stats \<Rightarrow> timedelta" where
  "read_counter Cumulative st = cumulative_time st"
| "read_counter Invoiced st = invoice_time st"
| "read_counter Skipped st = skipped_time st"
| "read_counter (DayCumulative d) st = day_cumulative_time (day_of (per_day st) d)"
| "read_counter (DayInvoiced d) st = day_invoice_time (day_of (per_day st) d)"
| "read_counter (DaySkipped d) st = day_skipped_time (day_of (per_day st) d)"

fun counts :: "counter \<Rightarrow> OutlineNode \<Rightarrow> ClockEntry \<Rightarrow> bool" where
  "counts Cumulative node c = True"
| "counts Invoiced node c = (\<not> node_skip node)"
| "counts Skipped node c = node_skip node"
| "counts (DayCumulative d) node c = (date (clk_start c) = d)"
| "counts (DayInvoiced d) node c = (\<not> node_skip node \<and> date (clk_start c) = d)"
| "counts (DaySkipped d) node c = (node_skip node \<and> date (clk_start c) = d)"

text \<open>Two readings of one document node: all the node holds is the same, the tags as
  a set, whatever the order they are met in; likewise for the ancestors.\<close>

fun same_node :: "OutlineNode \<Rightarrow> OutlineNode \<Rightarrow> bool" where
  "same_node (OutlineNode h ts ps cs par) (OutlineNode h' ts' ps' cs' par') \<longleftrightarrow>
     h = h' \<and> set ts = set ts' \<and> ps = ps' \<and> cs = cs' \<and>
     (case (par, par') of
        (None, None) \<Rightarrow> True
      | (Some p, Some p') \<Rightarrow> same_node p p'
      | _ \<Rightarrow> False)"

definition same_documents ::
  "(string \<rightharpoonup> OutlineNode list) \<Rightarrow> (string \<rightharpoonup> OutlineNode list) \<Rightarrow> bool" where
  "same_documents files files' \<longleftrightarrow>
     (\<forall>path. rel_option (list_all2 same_node) (files path) (files' path))"

text \<open>A tracker has grown into another when no issue has appeared or disappeared and
  every issue's work-logs have only been extended.\<close>

definition grows :: "Jira \<Rightarrow> Jira \<Rightarrow> bool" where
  "grows j j' \<longleftrightarrow>
     (\<forall>k. case j k of None \<Rightarrow> j' k = None | Some ws \<Rightarrow> (\<exists>ws'. j' k = Some (ws @ ws')))"

section \<open>A worked example\<close>

text \<open>
  The requested interval 2024-01-01..2024-01-03, a node headed \<open>PROJ-42 review\<close> with
  the clock entry 2024-01-02 10:00 to 13:00, the same node with the \<open>jira-skip\<close>
  property, an entry from 2024-01-02 22:00 to 2024-01-03 02:00 that runs over the end of
  the window, and a tracker that knows the issue \<open>PROJ-42\<close>.
\<close>

definition ex_window :: Interval where
  "ex_window = \<lparr>ivl_start = 1704067200000000, ivl_end = 1704240000000000\<rparr>"

definition ex_clock :: ClockEntry where
  "ex_clock = \<lparr>clk_start = 1704189600000000, clk_end = 1704200400000000,
     duration = 10800000000\<rparr>"

definition ex_matched :: Interval where
  "ex_matched = \<lparr>ivl_start = 1704189600000000, ivl_end = 1704200400000000\<rparr>"

definition ex_late_clock :: ClockEntry where
  "ex_late_clock = \<lparr>clk_start = 1704232800000000, clk_end = 1704247200000000,
     duration = 14400000000\<rparr>"

definition ex_late_matched :: Interval where
  "ex_late_matched = \<lparr>ivl_start = 1704232800000000, ivl_end = 1704240000000000\<rparr>"

definition ex_project_re :: "string \<Rightarrow> string list" where
  "ex_project_re h = (if h = ''PROJ-42 review'' then [''PROJ-42''] else [])"

definition ex_root :: OutlineNode where
  "ex_root = OutlineNode [] [] Map.empty [] None"

definition ex_node :: OutlineNode where
  "ex_node = OutlineNode ''PROJ-42 review'' [] Map.empty [ex_clock] (Some ex_root)"

definition ex_skip_node :: OutlineNode where
  "ex_skip_node =
     OutlineNode ''PROJ-42 review'' [] [''jira-skip'' \<mapsto> ''t''] [ex_clock] (Some ex_root)"

definition ex_late_node :: OutlineNode where
  "ex_late_node = OutlineNode ''PROJ-42 review'' [] Map.empty [ex_late_clock] (Some ex_root)"

definition ex_settings :: Settings where
  "ex_settings = \<lparr>project_regexps = [ex_project_re], settings_tags = Map.empty,
     org_files = [''work.org'']\<rparr>"

definition ex_args :: Args where
  "ex_args = \<lparr>args_intervals = [ex_window], args_query_jira = True,
     args_send_data_to_jira = True\<rparr>"

definition ex_jira :: Jira where
  "ex_jira = [''PROJ-42'' \<mapsto> []]"

definition ex_files :: "string \<rightharpoonup> OutlineNode list" where
  "ex_files = [''work.org'' \<mapsto> [ex_root, ex_node]]"

definition ex_chain_root :: OutlineNode where
  "ex_chain_root = OutlineNode ''project'' [] [''jira-task'' \<mapsto> ''PROJ-1''] [] None"

definition ex_chain_mid :: OutlineNode where
  "ex_chain_mid = OutlineNode ''phase'' [] Map.empty [] (Some ex_chain_root)"

definition ex_chain_leaf :: OutlineNode where
  "ex_chain_leaf = OutlineNode ''task'' [] Map.empty [] (Some ex_chain_mid)"

definition ex_worklog :: Worklog where
  "ex_worklog = \<lparr>started = 1704189600000000, timeSpentSeconds = 10800,
     comment = ''PROJ-42 review''\<rparr>"

definition ex_zero_clock :: ClockEntry where
  "ex_zero_clock = \<lparr>clk_start = 1704189600000000, clk_end = 1704189600000000, duration = 0\<rparr>"

definition ex_zero_matched :: Interval where
  "ex_zero_matched = \<lparr>ivl_start = 1704189600000000, ivl_end = 1704189600000000\<rparr>"

definition ex_files_both :: "string \<rightharpoonup> OutlineNode list" where
  "ex_files_both = [''work.org'' \<mapsto> [ex_root, ex_node, ex_skip_node]]"

text \<open>
  A node with the tags \<open>ops\<close> and \<open>dev\<close>, both configured, read in one run with
  \<open>ops\<close> first and in another with \<open>dev\<close> first.
\<close>

definition ex_tag_settings :: Settings where
  "ex_tag_settings = \<lparr>project_regexps = [],
     settings_tags = [''ops'' \<mapsto> Some ''OPS-1'', ''dev'' \<mapsto> Some ''DEV-2''],
     org_files = [''work.org'']\<rparr>"

definition ex_tag_node :: OutlineNode where
  "ex_tag_node = OutlineNode ''review'' [''ops'', ''dev''] Map.empty [ex_clock] (Some ex_root)"

definition ex_tag_node_again :: OutlineNode where
  "ex_tag_node_again =
     OutlineNode ''review'' [''dev'', ''ops''] Map.empty [ex_clock] (Some ex_root)"

definition ex_tag_files :: "string \<rightharpoonup> OutlineNode list" where
  "ex_tag_files = [''work.org'' \<mapsto> [ex_root, ex_tag_node]]"

definition ex_tag_files_again :: "string \<rightharpoonup> OutlineNode list" where
  "ex_tag_files_again = [''work.org'' \<mapsto> [ex_root, ex_tag_node_again]]"

definition ex_tag_jira :: Jira where
  "ex_tag_jira = [''OPS-1'' \<mapsto> [], ''DEV-2'' \<mapsto> []]"

definition ex_tag_worklog :: Worklog where
  "ex_tag_worklog = \<lparr>started = 1704189600000000, timeSpentSeconds = 10800,
     comment = ''review''\<rparr>"

section \<open>Properties of the Interval Matcher\<close>

text \<open>
  Claim C1. The matcher answers for the first requested interval, in the caller's order,
  that contains the recorded start, with the interval from the recorded start to the
  lesser of the recorded end and that window's end; when no requested interval contains
  the recorded start the answer is no-match, whatever the recorded end is.
\<close>

theorem match_lookup_intervals_first_window:
  "match_lookup_intervals ivls clock_start clock_end =
     (case first_window ivls clock_start of
        None \<Rightarrow> None
      | Some w \<Rightarrow> Some \<lparr>ivl_start = clock_start, ivl_end = min clock_end (ivl_end w)\<rparr>)"
  by (induction ivls) (auto simp: first_window_def contains_start_def min_def)

section \<open>Properties of the Issue Resolver\<close>

declare find_jira_issue.simps [simp del]

lemma find_jira_issue_own:
  "find_jira_issue node settings =
     (if truthy (own_issue node settings) then own_issue node settings
      else find_issue_in_parent node settings)"
  by (simp add: find_jira_issue.simps own_issue_def py_or_def)

text \<open>
  Claim C2. The resolver tries the property \<open>jira-task\<close>, then the heading patterns,
  then the tags, then the parent, and answers with the first non-empty result: the
  property's value whatever the heading, the tags and the parent are; else the heading
  match whatever the tags and the parent are; else the tag's issue whatever the parent
  is; else what the parent resolves to.
\<close>

theorem find_jira_issue_precedence:
  "(truthy (ps ''jira-task'') \<longrightarrow>
      find_jira_issue (OutlineNode h ts ps cs par) settings = ps ''jira-task'') \<and>
   (\<not> truthy (ps ''jira-task'') \<and> truthy (heading_loop (project_regexps settings) h) \<longrightarrow>
      find_jira_issue (OutlineNode h ts ps cs par) settings =
        heading_loop (project_regexps settings) h) \<and>
   (\<not> truthy (ps ''jira-task'') \<and> \<not> truthy (heading_loop (project_regexps settings) h) \<and>
    truthy (tag_loop ts (settings_tags settings)) \<longrightarrow>
      find_jira_issue (OutlineNode h ts ps cs par) settings = tag_loop ts (settings_tags settings)) \<and>
   (\<not> truthy (ps ''jira-task'') \<and> \<not> truthy (heading_loop (project_regexps settings) h) \<and>
    \<not> truthy (tag_loop ts (settings_tags settings)) \<longrightarrow>
      find_jira_issue (OutlineNode h ts ps cs par) settings =
        (case par of None \<Rightarrow> None | Some p \<Rightarrow> find_jira_issue p settings))"
  by (simp add: find_jira_issue.simps py_or_def find_issue_in_property_def
      find_issue_in_heading_def find_issue_by_tag_def split: option.splits)

theorem find_jira_issue_precedence_witness:
  "find_jira_issue (OutlineNode ''PROJ-42 review'' [''ops''] [''jira-task'' \<mapsto> ''OVR-7'']
       [] (Some ex_root))
     \<lparr>project_regexps = [ex_project_re], settings_tags = [''ops'' \<mapsto> Some ''OPS-1''],
       org_files = []\<rparr> = Some ''OVR-7'' \<and>
   find_jira_issue (OutlineNode ''PROJ-42 review'' [''ops''] Map.empty [] (Some ex_root))
     \<lparr>project_regexps = [ex_project_re], settings_tags = [''ops'' \<mapsto> Some ''OPS-1''],
       org_files = []\<rparr> = Some ''PROJ-42'' \<and>
   find_jira_issue (OutlineNode ''review'' [''ops''] Map.empty [] (Some ex_root))
     \<lparr>project_regexps = [ex_project_re], settings_tags = [''ops'' \<mapsto> Some ''OPS-1''],
       org_files = []\<rparr> = Some ''OPS-1'' \<and>
   find_jira_issue (OutlineNode ''review'' [] Map.empty []
       (Some (OutlineNode ''PROJ-42 review'' [] Map.empty [] None)))
     \<lparr>project_regexps = [ex_project_re], settings_tags = [''ops'' \<mapsto> Some ''OPS-1''],
       org_files = []\<rparr> = Some ''PROJ-42''"
  using
    find_jira_issue_precedence[of "[''jira-task'' \<mapsto> ''OVR-7'']" "''PROJ-42 review''"
      "[''ops'']" "[]" "Some ex_root"
      "\<lparr>project_regexps = [ex_project_re], settings_tags = [''ops'' \<mapsto> Some ''OPS-1''],
         org_files = []\<rparr>"]
    find_jira_issue_precedence[of Map.empty "''PROJ-42 review''"
      "[''ops'']" "[]" "Some ex_root"
      "\<lparr>project_regexps = [ex_project_re], settings_tags = [''ops'' \<mapsto> Some ''OPS-1''],
         org_files = []\<rparr>"]
    find_jira_issue_precedence[of Map.empty "''review''"
      "[''ops'']" "[]" "Some ex_root"
      "\<lparr>project_regexps = [ex_project_re], settings_tags = [''ops'' \<mapsto> Some ''OPS-1''],
         org_files = []\<rparr>"]
    find_jira_issue_precedence[of Map.empty "''review''"
      "[]" "[]" "Some (OutlineNode ''PROJ-42 review'' [] Map.empty [] None)"
      "\<lparr>project_regexps = [ex_project_re], settings_tags = [''ops'' \<mapsto> Some ''OPS-1''],
         org_files = []\<rparr>"]
    find_jira_issue_precedence[of Map.empty "''PROJ-42 review''"
      "[]" "[]" "None"
      "\<lparr>project_regexps = [ex_project_re], settings_tags = [''ops'' \<mapsto> Some ''OPS-1''],
         org_files = []\<rparr>"]
  by (simp add: truthy_def ex_project_re_def)

lemma calls_bound: "find_jira_issue_calls node settings \<le> length (ancestors node) + 1"
proof (induction node)
  case (OutlineNode h ts ps cs par)
  then show ?case by (cases par) auto
qed

lemma chain_resolves:
  "ancestors node = as @ [root] \<Longrightarrow>
   \<forall>a \<in> set (node # as). \<not> truthy (own_issue a settings) \<Longrightarrow>
   properties root ''jira-task'' = Some v \<Longrightarrow> v \<noteq> [] \<Longrightarrow>
   find_jira_issue node settings = Some v \<and>
   find_jira_issue_calls node settings = length as + 2"
proof (induction as arbitrary: node)
  case Nil
  obtain h ts ps cs par where n: "node = OutlineNode h ts ps cs par" by (cases node)
  with Nil have par: "par = Some root" by (cases par) auto
  have r: "find_jira_issue root settings = Some v"
    using Nil by (simp add: find_jira_issue.simps py_or_def find_issue_in_property_def truthy_def)
  obtain h' ts' ps' cs' par' where rt: "root = OutlineNode h' ts' ps' cs' par'" by (cases root)
  have rc: "find_jira_issue_calls root settings = 1"
    using Nil rt by (simp add: py_or_def find_issue_in_property_def truthy_def)
  from Nil have "\<not> truthy (own_issue node settings)" by simp
  then show ?case using n par r rc
    by (simp add: find_jira_issue_own own_issue_def)
next
  case (Cons a as)
  obtain h ts ps cs par where n: "node = OutlineNode h ts ps cs par" by (cases node)
  with Cons.prems have par: "par = Some a" and anc: "ancestors a = as @ [root]"
    by (cases par; auto)+
  have "find_jira_issue a settings = Some v \<and> find_jira_issue_calls a settings = length as + 2"
    using Cons.IH[OF anc] Cons.prems by simp
  moreover from Cons.prems have "\<not> truthy (own_issue node settings)" by simp
  ultimately show ?case using n par
    by (simp add: find_jira_issue_own own_issue_def)
qed

text \<open>
  Claim C3. Resolution through the parents ends on every parent chain: it makes at most
  one call per node of the chain. A node with no issue of its own and no parent resolves
  to no-match; when no node below the root has an issue of its own and the root carries a
  non-empty \<open>jira-task\<close> property, the leaf resolves to that value, with one call for
  the leaf and one for each of its ancestors.
\<close>

theorem parent_inheritance:
  "(parent node = None \<and> \<not> truthy (own_issue node settings) \<longrightarrow>
      find_jira_issue node settings = None) \<and>
   find_jira_issue_calls node settings \<le> length (ancestors node) + 1 \<and>
   (\<forall>as root v.
      ancestors node = as @ [root] \<and> (\<forall>a \<in> set (node # as). \<not> truthy (own_issue a settings)) \<and>
      properties root ''jira-task'' = Some v \<and> v \<noteq> [] \<longrightarrow>
      find_jira_issue node settings = Some v \<and>
      find_jira_issue_calls node settings = length (ancestors node) + 1)"
proof (intro conjI allI impI)
  assume "parent node = None \<and> \<not> truthy (own_issue node settings)"
  then show "find_jira_issue node settings = None"
    by (simp add: find_jira_issue_own)
next
  show "find_jira_issue_calls node settings \<le> length (ancestors node) + 1"
    by (rule calls_bound)
next
  fix as root v
  assume a: "ancestors node = as @ [root] \<and>
      (\<forall>a \<in> set (node # as). \<not> truthy (own_issue a settings)) \<and>
      properties root ''jira-task'' = Some v \<and> v \<noteq> []"
  then have r: "find_jira_issue node settings = Some v \<and>
      find_jira_issue_calls node settings = length as + 2"
    using chain_resolves[of node as root settings v] by blast
  from r show "find_jira_issue node settings = Some v" by simp
  from r a show "find_jira_issue_calls node settings = length (ancestors node) + 1" by simp
qed

theorem parent_inheritance_witness:
  "find_jira_issue ex_root ex_settings = None \<and>
   find_jira_issue ex_chain_leaf ex_settings = Some ''PROJ-1'' \<and>
   find_jira_issue_calls ex_chain_leaf ex_settings = 3"
proof -
  have own: "\<And>h. h \<noteq> ''PROJ-42 review'' \<Longrightarrow>
      own_issue (OutlineNode h [] Map.empty [] p) ex_settings = None" for p
    by (simp add: own_issue_def py_or_def truthy_def find_issue_in_property_def
        find_issue_in_heading_def find_issue_by_tag_def ex_settings_def ex_project_re_def)
  have a: "find_jira_issue ex_root ex_settings = None"
    using parent_inheritance[of ex_root ex_settings] own[of "[]" None]
    by (simp add: ex_root_def truthy_def)
  have b: "find_jira_issue ex_chain_leaf ex_settings = Some ''PROJ-1'' \<and>
      find_jira_issue_calls ex_chain_leaf ex_settings = length (ancestors ex_chain_leaf) + 1"
    using parent_inheritance[of ex_chain_leaf ex_settings, THEN conjunct2, THEN conjunct2,
        rule_format, of "[ex_chain_mid]" ex_chain_root "''PROJ-1''"]
      own[of "''task''" "Some ex_chain_mid"] own[of "''phase''" "Some ex_chain_root"]
    by (simp add: ex_chain_leaf_def ex_chain_mid_def ex_chain_root_def truthy_def)
  have "length (ancestors ex_chain_leaf) = 2"
    by (simp add: ex_chain_leaf_def ex_chain_mid_def ex_chain_root_def)
  with a b show ?thesis by simp
qed

section \<open>Properties of the Submission Gate\<close>

lemma worklog_loop_iff:
  "worklog_loop ws interval \<longleftrightarrow> (\<exists>w \<in> set ws. started w = ivl_start interval)"
  by (induction ws) auto

lemma td_seconds_zero [simp]: "td_seconds 0 = 0"
  by (simp add: td_seconds_def)

text \<open>The gate by cases: the fetch of an unknown issue raises; a work-log that starts
  with the interval ends the call; otherwise one work-log is created when sending is on
  and the seconds field of the duration is not zero.\<close>

lemma gate_cases:
  "send_interval_to_jira jira key interval description query_jira send_data =
    (if (query_jira \<or> (send_data \<and> td_seconds (ivl_end interval - ivl_start interval) \<noteq> 0))
        \<and> jira key = None
     then (Inl JIRAError, jira)
     else if query_jira \<and> worklog_loop (jira_worklogs jira key) interval then (Inr False, jira)
     else if send_data \<and> td_seconds (ivl_end interval - ivl_start interval) \<noteq> 0
     then (Inr True, jira(key \<mapsto> jira_worklogs jira key @
            [\<lparr>started = ivl_start interval,
              timeSpentSeconds = td_seconds (ivl_end interval - ivl_start interval),
              comment = description\<rparr>]))
     else (Inr False, jira))"
  by (auto simp: send_interval_to_jira_def send_part_def jira_issue_def jira_worklogs_def
      jira_add_worklog_def split: option.splits)

lemma gate_zero_seconds:
  "td_seconds (ivl_end interval - ivl_start interval) = 0 \<Longrightarrow>
   send_interval_to_jira jira key interval description query_jira send_data =
     (if query_jira \<and> jira key = None then Inl JIRAError else Inr False, jira)"
  by (auto simp: gate_cases)

text \<open>
  Claim C4. With the remote query on, when a work-log of the issue starts at the
  interval's start, the gate answers "not sent" and leaves the tracker as it is, whatever
  the write flag is.
\<close>

theorem send_interval_to_jira_already_submitted:
  assumes "jira key = Some ws" and "w \<in> set ws" and "started w = ivl_start interval"
  shows "send_interval_to_jira jira key interval description True send_data = (Inr False, jira)"
  using assms by (auto simp: gate_cases jira_worklogs_def worklog_loop_iff)

theorem send_interval_to_jira_already_submitted_witness:
  "[''PROJ-42'' \<mapsto> [ex_worklog]] ''PROJ-42'' = Some [ex_worklog] \<and>
   ex_worklog \<in> set [ex_worklog] \<and> started ex_worklog = ivl_start ex_matched \<and>
   send_interval_to_jira [''PROJ-42'' \<mapsto> [ex_worklog]] ''PROJ-42'' ex_matched
     ''PROJ-42 review'' True True = (Inr False, [''PROJ-42'' \<mapsto> [ex_worklog]]) \<and>
   send_interval_to_jira [''PROJ-42'' \<mapsto> [ex_worklog]] ''PROJ-42'' ex_matched
     ''PROJ-42 review'' True False = (Inr False, [''PROJ-42'' \<mapsto> [ex_worklog]])"
proof -
  have h1: "[''PROJ-42'' \<mapsto> [ex_worklog]] ''PROJ-42'' = Some [ex_worklog]" by simp
  have h2: "ex_worklog \<in> set [ex_worklog]" by simp
  have h3: "started ex_worklog = ivl_start ex_matched"
    by (simp add: ex_worklog_def ex_matched_def)
  show ?thesis
    using h1 h2 h3
      send_interval_to_jira_already_submitted[of "[''PROJ-42'' \<mapsto> [ex_worklog]]"
        "''PROJ-42''" "[ex_worklog]" ex_worklog ex_matched, OF h1 h2 h3]
    by simp
qed

lemma day_of_upd [simp]:
  "day_of (m(k \<mapsto> v)) k' = (if k' = k then v else day_of m k')"
  by (simp add: day_of_def)

lemma task_of_upd [simp]:
  "task_of (m(k \<mapsto> v)) k' = (if k' = k then v else task_of m k')"
  by (simp add: task_of_def)

text \<open>
  Claim C5. For an interval whose end equals its start the gate creates no work-log and
  answers "not sent", whatever the flags are (with the query on, the fetch of an unknown
  issue raises, and writes nothing either); and when such an interval is the match of a
  clock entry, the driver leaves the tracker and every day's added-time counter as they
  were.
\<close>

theorem zero_duration_never_sent:
  assumes "ivl_end interval = ivl_start interval"
  shows "send_interval_to_jira jira key interval description query_jira send_data =
           (if query_jira \<and> jira key = None then Inl JIRAError else Inr False, jira) \<and>
         (match_lookup_intervals (args_intervals args) (clk_start clocked) (clk_end clocked)
            = Some interval \<longrightarrow>
          snd (clock_body args settings node skip clocked st jira) = jira \<and>
          (\<forall>st'. fst (clock_body args settings node skip clocked st jira) = Inr st' \<longrightarrow>
             (\<forall>d. day_added_time (day_of (per_day st') d) =
                   day_added_time (day_of (per_day st) d))))"
proof -
  from assms have z: "td_seconds (ivl_end interval - ivl_start interval) = 0" by simp
  show ?thesis
    by (auto simp: gate_zero_seconds[OF z] clock_body_def Let_def)
qed

theorem zero_duration_never_sent_witness:
  "ivl_end ex_zero_matched = ivl_start ex_zero_matched \<and>
   send_interval_to_jira ex_jira ''PROJ-42'' ex_zero_matched ''PROJ-42 review'' True True
     = (Inr False, ex_jira) \<and>
   match_lookup_intervals (args_intervals ex_args) (clk_start ex_zero_clock)
      (clk_end ex_zero_clock) = Some ex_zero_matched \<and>
   snd (clock_body ex_args ex_settings ex_node False ex_zero_clock zero_stats ex_jira) = ex_jira"
proof -
  have z: "ivl_end ex_zero_matched = ivl_start ex_zero_matched"
    by (simp add: ex_zero_matched_def)
  have m: "match_lookup_intervals (args_intervals ex_args) (clk_start ex_zero_clock)
      (clk_end ex_zero_clock) = Some ex_zero_matched"
    by (simp add: ex_args_def ex_window_def ex_zero_clock_def ex_zero_matched_def)
  have k: "ex_jira ''PROJ-42'' \<noteq> None"
    by (simp add: ex_jira_def)
  show ?thesis
    using z m k
      zero_duration_never_sent[OF z, where jira = ex_jira and key = "''PROJ-42''"
        and description = "''PROJ-42 review''" and query_jira = True and send_data = True
        and args = ex_args and clocked = ex_zero_clock and settings = ex_settings
        and node = ex_node and skip = False and st = zero_stats]
    by simp
qed

text \<open>
  Claim C6, at the clock entry 2024-01-01 10:00 to 2024-01-02 11:00 (25 hours, 90000
  seconds) with the write flag on and no work-log yet: the work-log created carries 3600
  seconds, the seconds field of the duration, not its total; and for the entry
  2024-01-01 10:00 to 2024-01-02 10:00 (24 hours) nothing is created.
\<close>

theorem send_interval_to_jira_seconds_field:
  "send_interval_to_jira ex_jira ''PROJ-42''
     \<lparr>ivl_start = 1704103200000000, ivl_end = 1704193200000000\<rparr> ''PROJ-42 review'' True True
     = (Inr True, [''PROJ-42'' \<mapsto> [\<lparr>started = 1704103200000000, timeSpentSeconds = 3600,
                                      comment = ''PROJ-42 review''\<rparr>]]) \<and>
   (1704193200000000 - 1704103200000000) div usec_per_second = 90000 \<and>
   send_interval_to_jira ex_jira ''PROJ-42''
     \<lparr>ivl_start = 1704103200000000, ivl_end = 1704189600000000\<rparr> ''PROJ-42 review'' True True
     = (Inr False, ex_jira)"
  by (simp add: gate_cases jira_worklogs_def td_seconds_def usec_per_second_def
      seconds_per_day_def ex_jira_def)

section \<open>Properties of the Reconciliation Driver\<close>

text \<open>The worked example, evaluated.\<close>

lemma ex_date: "date (clk_start ex_clock) = 19724"
  by (simp add: date_def seconds_per_day_def usec_per_second_def ex_clock_def)

lemma ex_match:
  "match_lookup_intervals (args_intervals ex_args) (clk_start ex_clock) (clk_end ex_clock)
     = Some ex_matched"
  by (simp add: ex_args_def ex_window_def ex_clock_def ex_matched_def)

lemma ex_late_match:
  "match_lookup_intervals (args_intervals ex_args) (clk_start ex_late_clock)
     (clk_end ex_late_clock) = Some ex_late_matched"
  by (simp add: ex_args_def ex_window_def ex_late_clock_def ex_late_matched_def)

lemma ex_resolves:
  "find_jira_issue (OutlineNode ''PROJ-42 review'' [] ps cs (Some ex_root)) ex_settings
     = (if truthy (ps ''jira-task'') then ps ''jira-task'' else Some ''PROJ-42'')"
  by (simp add: find_jira_issue.simps ex_settings_def ex_project_re_def py_or_def
      truthy_def find_issue_in_property_def find_issue_in_heading_def)

lemma ex_gate:
  "send_interval_to_jira ex_jira ''PROJ-42'' ex_matched ''PROJ-42 review'' True True =
     (Inr True, [''PROJ-42'' \<mapsto> [ex_worklog]])"
  by (simp add: gate_cases jira_worklogs_def td_seconds_def usec_per_second_def
      seconds_per_day_def ex_jira_def ex_matched_def ex_worklog_def)

lemma ex_late_gate:
  "send_interval_to_jira ex_jira ''PROJ-42'' ex_late_matched ''PROJ-42 review'' True True =
     (Inr True, [''PROJ-42'' \<mapsto> [\<lparr>started = 1704232800000000, timeSpentSeconds = 7200,
        comment = ''PROJ-42 review''\<rparr>]])"
  by (simp add: gate_cases jira_worklogs_def td_seconds_def usec_per_second_def
      seconds_per_day_def ex_jira_def ex_late_matched_def)

lemma ex_clock_body:
  "\<exists>st'. clock_body ex_args ex_settings ex_node False ex_clock zero_stats ex_jira =
     (Inr st', [''PROJ-42'' \<mapsto> [ex_worklog]])"
proof -
  have q: "args_query_jira ex_args = True" "args_send_data_to_jira ex_args = True"
    by (simp_all add: ex_args_def)
  show ?thesis
    by (simp add: clock_body_def Let_def ex_match ex_node_def ex_resolves truthy_def q ex_gate)
qed

lemma clock_body_skip:
  "\<exists>st'. clock_body args settings node True c st jira = (Inr st', jira) \<and>
     cumulative_time st' = cumulative_time st + matched_time args [c] \<and>
     skipped_time st' = skipped_time st + matched_time args [c] \<and>
     invoice_time st' = invoice_time st \<and>
     task_of (per_task st') (find_jira_issue node settings) =
       task_of (per_task st) (find_jira_issue node settings) + matched_time args [c]"
  by (cases "match_lookup_intervals (args_intervals args) (clk_start c) (clk_end c)")
    (simp_all add: clock_body_def Let_def matched_time_def matched_def)

lemma for_each_skip:
  "\<exists>st'. for_each (clock_body args settings node True) cs st jira = (Inr st', jira) \<and>
     cumulative_time st' = cumulative_time st + matched_time args cs \<and>
     skipped_time st' = skipped_time st + matched_time args cs \<and>
     invoice_time st' = invoice_time st \<and>
     task_of (per_task st') (find_jira_issue node settings) =
       task_of (per_task st) (find_jira_issue node settings) + matched_time args cs"
proof (induction cs arbitrary: st)
  case Nil
  then show ?case by (simp add: matched_time_def)
next
  case (Cons c cs)
  obtain st1 where b: "clock_body args settings node True c st jira = (Inr st1, jira)"
    and b1: "cumulative_time st1 = cumulative_time st + matched_time args [c]"
    and b2: "skipped_time st1 = skipped_time st + matched_time args [c]"
    and b3: "invoice_time st1 = invoice_time st"
    and b4: "task_of (per_task st1) (find_jira_issue node settings) =
       task_of (per_task st) (find_jira_issue node settings) + matched_time args [c]"
    using clock_body_skip[of args settings node c st jira] by blast
  obtain st2 where l: "for_each (clock_body args settings node True) cs st1 jira = (Inr st2, jira)"
    and l1: "cumulative_time st2 = cumulative_time st1 + matched_time args cs"
    and l2: "skipped_time st2 = skipped_time st1 + matched_time args cs"
    and l3: "invoice_time st2 = invoice_time st1"
    and l4: "task_of (per_task st2) (find_jira_issue node settings) =
       task_of (per_task st1) (find_jira_issue node settings) + matched_time args cs"
    using Cons.IH[of st1] by blast
  have m: "matched_time args (c # cs) = matched_time args [c] + matched_time args cs"
    by (simp add: matched_time_def)
  show ?case
    using b l b1 b2 b3 b4 l1 l2 l3 l4 m by simp
qed

text \<open>Each counter grows by the durations of the matched entries it counts: per
  entry, per node, per file, per run.\<close>

lemma clock_body_counts:
  assumes "clock_body args settings node (node_skip node) c st j = (Inr st', j')"
  shows "read_counter k st' =
     read_counter k st + (if matched args c \<and> counts k node c then duration c else 0)"
proof (cases "match_lookup_intervals (args_intervals args) (clk_start c) (clk_end c)")
  case None
  with assms show ?thesis by (simp add: clock_body_def matched_def)
next
  case (Some m)
  with assms show ?thesis
    by (cases k)
      (auto simp: clock_body_def Let_def matched_def split: prod.splits sum.splits if_splits)
qed

lemma for_each_sum:
  assumes step: "\<And>x st j st' j'. x \<in> set xs \<Longrightarrow> body x st j = (Inr st', j') \<Longrightarrow>
      m st' = m st + (w x :: int)"
    and run: "for_each body xs st j = (Inr st', j')"
  shows "m st' = m st + sum_list (map w xs)"
  using assms
proof (induction xs arbitrary: st j)
  case Nil
  then show ?case by simp
next
  case (Cons x xs)
  obtain r j1 where b: "body x st j = (r, j1)" by (cases "body x st j")
  from Cons.prems(2) b obtain st1 where r: "r = Inr st1" by (cases r) simp_all
  have s1: "m st1 = m st + w x"
    by (rule Cons.prems(1)[of x st j st1 j1]) (simp_all add: b r)
  from Cons.prems(2) b r have l: "for_each body xs st1 j1 = (Inr st', j')" by simp
  have sxs: "\<And>y st j st' j'. y \<in> set xs \<Longrightarrow> body y st j = (Inr st', j') \<Longrightarrow>
      m st' = m st + w y"
    by (rule Cons.prems(1)) simp_all
  have "m st' = m st1 + sum_list (map w xs)"
    by (rule Cons.IH[OF sxs l])
  with s1 show ?case by simp
qed

lemma node_body_counts:
  assumes "node_body args settings node st j = (Inr st', j')"
  shows "read_counter k st' = read_counter k st +
     sum_list (map duration (filter (\<lambda>c. matched args c \<and> counts k node c) (clock node)))"
proof (cases "clock node = []")
  case True
  with assms show ?thesis by (simp add: node_body_def)
next
  case False
  with assms have l: "for_each (clock_body args settings node (node_skip node)) (clock node) st j
      = (Inr st', j')"
    by (simp add: node_body_def node_skip_def)
  have "read_counter k st' = read_counter k st +
      sum_list (map (\<lambda>c. if matched args c \<and> counts k node c then duration c else 0)
        (clock node))"
  proof (rule for_each_sum[OF _ l])
    fix x st j st' j'
    assume "clock_body args settings node (node_skip node) x st j = (Inr st', j')"
    then show "read_counter k st' =
        read_counter k st + (if matched args x \<and> counts k node x then duration x else 0)"
      by (rule clock_body_counts)
  qed
  then show ?thesis by (simp add: sum_list_map_filter')
qed

lemma file_body_counts:
  assumes "file_body args settings files path st j = (Inr st', j')"
  shows "read_counter k st' = read_counter k st +
     counted_time args (counts k)
       (case files path of None \<Rightarrow> [] | Some root \<Rightarrow> drop 1 root)"
proof (cases "files path")
  case None
  with assms show ?thesis by (simp add: file_body_def)
next
  case (Some root)
  with assms have l: "for_each (node_body args settings) (drop 1 root) st j = (Inr st', j')"
    by (simp add: file_body_def)
  have "read_counter k st' = read_counter k st +
      sum_list (map (\<lambda>node. sum_list (map duration
        (filter (\<lambda>c. matched args c \<and> counts k node c) (clock node)))) (drop 1 root))"
  proof (rule for_each_sum[OF _ l])
    fix x st j st' j'
    assume "node_body args settings x st j = (Inr st', j')"
    then show "read_counter k st' = read_counter k st +
       sum_list (map duration (filter (\<lambda>c. matched args c \<and> counts k x c) (clock x)))"
      by (rule node_body_counts)
  qed
  with Some show ?thesis by (simp add: counted_time_def)
qed

lemma counted_time_concat:
  "counted_time args P (concat nss) = sum_list (map (counted_time args P) nss)"
  by (induction nss) (simp_all add: counted_time_def)

lemma run_counts:
  assumes "send_data_to_jira args settings files jira = (Inr st', jira')"
  shows "read_counter k st' = counted_time args (counts k) (run_nodes settings files)"
proof -
  from assms have l: "for_each (file_body args settings files) (org_files settings)
      zero_stats jira = (Inr st', jira')"
    by (simp add: send_data_to_jira_def)
  have "read_counter k st' = read_counter k zero_stats +
      sum_list (map (\<lambda>path. counted_time args (counts k)
        (case files path of None \<Rightarrow> [] | Some root \<Rightarrow> drop 1 root)) (org_files settings))"
  proof (rule for_each_sum[OF _ l])
    fix x st j st' j'
    assume "file_body args settings files x st j = (Inr st', j')"
    then show "read_counter k st' = read_counter k st +
       counted_time args (counts k) (case files x of None \<Rightarrow> [] | Some root \<Rightarrow> drop 1 root)"
      by (rule file_body_counts)
  qed
  moreover have "read_counter k zero_stats = 0"
    by (cases k) (simp_all add: zero_stats_def day_of_def zero_day_def)
  ultimately show ?thesis
    by (simp add: run_nodes_def counted_time_concat comp_def)
qed

text \<open>
  Claim C7. In a run that completes, every matched clock entry of every visited node adds
  its recorded duration to the cumulative total and to the cumulative counter of the day
  of its start; it adds the same duration to the invoiced total and day counter when its
  node is not skipped and to the skipped total and day counter when its node is skipped,
  never to both: each total is the sum of the durations of exactly those entries.
\<close>

theorem driver_totals:
  assumes "send_data_to_jira args settings files jira = (Inr st', jira')"
  shows "cumulative_time st' = counted_time args (\<lambda>node c. True) (run_nodes settings files) \<and>
     invoice_time st' =
       counted_time args (\<lambda>node c. \<not> node_skip node) (run_nodes settings files) \<and>
     skipped_time st' =
       counted_time args (\<lambda>node c. node_skip node) (run_nodes settings files) \<and>
     (\<forall>d. day_cumulative_time (day_of (per_day st') d) =
             counted_time args (\<lambda>node c. date (clk_start c) = d) (run_nodes settings files) \<and>
           day_invoice_time (day_of (per_day st') d) =
             counted_time args (\<lambda>node c. \<not> node_skip node \<and> date (clk_start c) = d)
               (run_nodes settings files) \<and>
           day_skipped_time (day_of (per_day st') d) =
             counted_time args (\<lambda>node c. node_skip node \<and> date (clk_start c) = d)
               (run_nodes settings files))"
proof -
  have c: "\<And>k. read_counter k st' = counted_time args (counts k) (run_nodes settings files)"
    using assms by (rule run_counts)
  have e: "counts Cumulative = (\<lambda>node c. True)"
    "counts Invoiced = (\<lambda>node c. \<not> node_skip node)"
    "counts Skipped = (\<lambda>node c. node_skip node)"
    "\<And>d. counts (DayCumulative d) = (\<lambda>node c. date (clk_start c) = d)"
    "\<And>d. counts (DayInvoiced d) = (\<lambda>node c. \<not> node_skip node \<and> date (clk_start c) = d)"
    "\<And>d. counts (DaySkipped d) = (\<lambda>node c. node_skip node \<and> date (clk_start c) = d)"
    by (simp_all add: fun_eq_iff)
  show ?thesis
    using c[of Cumulative] c[of Invoiced] c[of Skipped]
      c[of "DayCumulative d" for d] c[of "DayInvoiced d" for d] c[of "DaySkipped d" for d]
    by (simp add: e)
qed

lemma ex_run_both:
  "\<exists>st'. send_data_to_jira ex_args ex_settings ex_files_both ex_jira =
     (Inr st', [''PROJ-42'' \<mapsto> [ex_worklog]])"
proof -
  obtain s1 where c: "clock_body ex_args ex_settings ex_node False ex_clock zero_stats ex_jira =
     (Inr s1, [''PROJ-42'' \<mapsto> [ex_worklog]])"
    using ex_clock_body by blast
  have k1: "truthy (properties ex_node ''jira-skip'') = False" "clock ex_node = [ex_clock]"
    by (simp_all add: ex_node_def truthy_def)
  have n1: "node_body ex_args ex_settings ex_node zero_stats ex_jira =
     (Inr s1, [''PROJ-42'' \<mapsto> [ex_worklog]])"
    by (simp add: node_body_def k1 c)
  have k2: "truthy (properties ex_skip_node ''jira-skip'') = True" "clock ex_skip_node = [ex_clock]"
    by (simp_all add: ex_skip_node_def truthy_def)
  obtain s2 where l: "for_each (clock_body ex_args ex_settings ex_skip_node True) [ex_clock] s1
      [''PROJ-42'' \<mapsto> [ex_worklog]] = (Inr s2, [''PROJ-42'' \<mapsto> [ex_worklog]])"
    using for_each_skip[of ex_args ex_settings ex_skip_node "[ex_clock]" s1
        "[''PROJ-42'' \<mapsto> [ex_worklog]]"] by blast
  have n2: "node_body ex_args ex_settings ex_skip_node s1 [''PROJ-42'' \<mapsto> [ex_worklog]] =
     (Inr s2, [''PROJ-42'' \<mapsto> [ex_worklog]])"
    using l by (simp add: node_body_def k2)
  have f: "file_body ex_args ex_settings ex_files_both ''work.org'' zero_stats ex_jira =
     (Inr s2, [''PROJ-42'' \<mapsto> [ex_worklog]])"
    by (simp add: file_body_def ex_files_both_def n1 n2)
  have o: "org_files ex_settings = [''work.org'']" by (simp add: ex_settings_def)
  show ?thesis by (simp add: send_data_to_jira_def o f)
qed

theorem driver_totals_witness:
  "\<exists>st'. send_data_to_jira ex_args ex_settings ex_files_both ex_jira =
       (Inr st', [''PROJ-42'' \<mapsto> [ex_worklog]]) \<and>
     cumulative_time st' = 21600000000 \<and> invoice_time st' = 10800000000 \<and>
     skipped_time st' = 10800000000 \<and>
     day_cumulative_time (day_of (per_day st') 19724) = 21600000000 \<and>
     day_invoice_time (day_of (per_day st') 19724) = 10800000000 \<and>
     day_skipped_time (day_of (per_day st') 19724) = 10800000000 \<and>
     day_cumulative_time (day_of (per_day st') 19725) = 0"
proof -
  obtain st' where r: "send_data_to_jira ex_args ex_settings ex_files_both ex_jira =
       (Inr st', [''PROJ-42'' \<mapsto> [ex_worklog]])"
    using ex_run_both by blast
  have n: "run_nodes ex_settings ex_files_both = [ex_node, ex_skip_node]"
    by (simp add: run_nodes_def ex_settings_def ex_files_both_def)
  have k: "node_skip ex_node = False" "clock ex_node = [ex_clock]"
    "node_skip ex_skip_node = True" "clock ex_skip_node = [ex_clock]"
    by (simp_all add: node_skip_def ex_node_def ex_skip_node_def truthy_def)
  have m: "matched ex_args ex_clock" by (simp add: matched_def ex_match)
  have d: "duration ex_clock = 10800000000" by (simp add: ex_clock_def)
  from driver_totals[OF r] r show ?thesis
    by (simp add: n counted_time_def k m d ex_date)
qed

text \<open>
  Claim C8. For a node whose \<open>jira-skip\<close> property is set, the driver finishes the
  node without an exception and with the tracker unchanged, whatever the tracker holds,
  and adds the recorded time of the node's matched entries to the cumulative total, to
  the skipped total and to the per-task total of the issue the resolver gives for the
  node (or of no issue); the invoiced total stays.
\<close>

theorem skipped_node_never_sent:
  assumes "truthy (properties node ''jira-skip'')"
  shows "\<exists>st'. node_body args settings node st jira = (Inr st', jira) \<and>
     cumulative_time st' = cumulative_time st + matched_time args (clock node) \<and>
     skipped_time st' = skipped_time st + matched_time args (clock node) \<and>
     invoice_time st' = invoice_time st \<and>
     task_of (per_task st') (find_jira_issue node settings) =
       task_of (per_task st) (find_jira_issue node settings) + matched_time args (clock node)"
proof (cases "clock node = []")
  case True
  then show ?thesis by (simp add: node_body_def matched_time_def)
next
  case False
  with assms show ?thesis
    using for_each_skip[of args settings node "clock node" st jira]
    by (simp add: node_body_def)
qed

theorem skipped_node_never_sent_witness:
  "truthy (properties ex_skip_node ''jira-skip'') \<and>
   (\<exists>st'. node_body ex_args ex_settings ex_skip_node zero_stats Map.empty = (Inr st', Map.empty) \<and>
      cumulative_time st' = 10800000000 \<and> skipped_time st' = 10800000000 \<and>
      invoice_time st' = 0 \<and> task_of (per_task st') (Some ''PROJ-42'') = 10800000000)"
proof -
  have t: "truthy (properties ex_skip_node ''jira-skip'')"
    by (simp add: ex_skip_node_def truthy_def)
  have r: "find_jira_issue ex_skip_node ex_settings = Some ''PROJ-42''"
    by (simp add: ex_skip_node_def ex_resolves truthy_def)
  have m: "matched_time ex_args (clock ex_skip_node) = 10800000000"
    by (simp add: matched_time_def matched_def ex_skip_node_def ex_match) (simp add: ex_clock_def)
  from skipped_node_never_sent[OF t, of ex_args ex_settings zero_stats Map.empty] t
  show ?thesis
    by (simp add: r m) (simp add: zero_stats_def task_of_def)
qed

lemma match_Some:
  "match_lookup_intervals ivls cs ce = Some m \<Longrightarrow>
   ivl_start m = cs \<and> (ivl_end m = ce \<or> cs < ivl_end m) \<and> ivl_end m \<le> ce"
  by (induction ivls) (auto split: if_splits)

lemma td_seconds_le: "0 \<le> d \<Longrightarrow> td_seconds d * usec_per_second \<le> d"
proof -
  assume d: "0 \<le> d"
  have "(d div 1000000) mod 86400 \<le> d div 1000000"
    using d by (simp add: pos_imp_zdiv_nonneg_iff zmod_le_nonneg_dividend)
  then have "((d div 1000000) mod 86400) * 1000000 \<le> (d div 1000000) * 1000000"
    by simp
  also have "\<dots> \<le> d" by simp
  finally show ?thesis by (simp add: td_seconds_def usec_per_second_def seconds_per_day_def)
qed

text \<open>
  Claim C10. When the gate answers "sent" for the matched interval of a clock entry, the
  driver adds the entry's recorded duration to the added-time counter of the day, while
  the work-log created carries the seconds of the matched interval; when the entry's
  duration is its end minus its start and its end lies beyond the end of the matched
  interval, the time sent is at most the matched interval's length, which is less than
  the duration added.
\<close>

theorem added_time_counts_full_duration:
  assumes m: "match_lookup_intervals (args_intervals args) (clk_start clocked) (clk_end clocked)
             = Some matched_interval"
    and t: "truthy (find_jira_issue node settings)"
    and g: "send_interval_to_jira jira (the (find_jira_issue node settings)) matched_interval
           (heading node) (args_query_jira args) (args_send_data_to_jira args) = (Inr True, jira')"
  shows "\<exists>st'. clock_body args settings node False clocked st jira = (Inr st', jira') \<and>
     day_added_time (day_of (per_day st') (date (clk_start clocked))) =
       day_added_time (day_of (per_day st) (date (clk_start clocked))) + duration clocked \<and>
     jira' = jira(the (find_jira_issue node settings) \<mapsto>
       jira_worklogs jira (the (find_jira_issue node settings)) @
         [\<lparr>started = ivl_start matched_interval,
           timeSpentSeconds = td_seconds (ivl_end matched_interval - ivl_start matched_interval),
           comment = heading node\<rparr>]) \<and>
     (duration clocked = clk_end clocked - clk_start clocked \<and>
      ivl_end matched_interval < clk_end clocked \<longrightarrow>
        td_seconds (ivl_end matched_interval - ivl_start matched_interval) * usec_per_second
          \<le> ivl_end matched_interval - ivl_start matched_interval \<and>
        ivl_end matched_interval - ivl_start matched_interval < duration clocked)"
proof -
  have j: "jira' = jira(the (find_jira_issue node settings) \<mapsto>
       jira_worklogs jira (the (find_jira_issue node settings)) @
         [\<lparr>started = ivl_start matched_interval,
           timeSpentSeconds = td_seconds (ivl_end matched_interval - ivl_start matched_interval),
           comment = heading node\<rparr>])"
    using g unfolding gate_cases by (auto split: if_splits)
  have c: "duration clocked = clk_end clocked - clk_start clocked \<and>
      ivl_end matched_interval < clk_end clocked \<longrightarrow>
        td_seconds (ivl_end matched_interval - ivl_start matched_interval) * usec_per_second
          \<le> ivl_end matched_interval - ivl_start matched_interval \<and>
        ivl_end matched_interval - ivl_start matched_interval < duration clocked"
  proof
    assume a: "duration clocked = clk_end clocked - clk_start clocked \<and>
      ivl_end matched_interval < clk_end clocked"
    from match_Some[OF m] a have s: "ivl_start matched_interval = clk_start clocked"
      and p: "clk_start clocked < ivl_end matched_interval" by auto
    then have "0 \<le> ivl_end matched_interval - ivl_start matched_interval" by simp
    from td_seconds_le[OF this] a s
    show "td_seconds (ivl_end matched_interval - ivl_start matched_interval) * usec_per_second
          \<le> ivl_end matched_interval - ivl_start matched_interval \<and>
        ivl_end matched_interval - ivl_start matched_interval < duration clocked" by simp
  qed
  have b: "\<exists>st'. clock_body args settings node False clocked st jira = (Inr st', jira') \<and>
     day_added_time (day_of (per_day st') (date (clk_start clocked))) =
       day_added_time (day_of (per_day st) (date (clk_start clocked))) + duration clocked"
    using m t g by (simp add: clock_body_def Let_def)
  from b j c show ?thesis by blast
qed

theorem added_time_counts_full_duration_witness:
  "duration ex_late_clock = clk_end ex_late_clock - clk_start ex_late_clock \<and>
   ivl_end ex_late_matched < clk_end ex_late_clock \<and>
   (\<exists>st'. clock_body ex_args ex_settings ex_late_node False ex_late_clock zero_stats ex_jira =
      (Inr st', [''PROJ-42'' \<mapsto> [\<lparr>started = 1704232800000000, timeSpentSeconds = 7200,
        comment = ''PROJ-42 review''\<rparr>]]) \<and>
     day_added_time (day_of (per_day st') 19724) = 14400000000) \<and>
   td_seconds (ivl_end ex_late_matched - ivl_start ex_late_matched) * usec_per_second
     < duration ex_late_clock"
proof -
  have r: "find_jira_issue ex_late_node ex_settings = Some ''PROJ-42''"
    by (simp add: ex_late_node_def ex_resolves truthy_def)
  have t: "truthy (find_jira_issue ex_late_node ex_settings)"
    by (simp add: r truthy_def)
  have g: "send_interval_to_jira ex_jira (the (find_jira_issue ex_late_node ex_settings))
       ex_late_matched (heading ex_late_node) (args_query_jira ex_args)
       (args_send_data_to_jira ex_args) =
     (Inr True, [''PROJ-42'' \<mapsto> [\<lparr>started = 1704232800000000, timeSpentSeconds = 7200,
        comment = ''PROJ-42 review''\<rparr>]])"
  proof -
    have h: "heading ex_late_node = ''PROJ-42 review''" by (simp add: ex_late_node_def)
    have q: "args_query_jira ex_args = True" "args_send_data_to_jira ex_args = True"
      by (simp_all add: ex_args_def)
    show ?thesis by (simp add: r h q ex_late_gate)
  qed
  have d: "date (clk_start ex_late_clock) = 19724"
    by (simp add: date_def seconds_per_day_def usec_per_second_def ex_late_clock_def)
  have z: "day_added_time (day_of (per_day zero_stats) 19724) = 0"
    by (simp add: zero_stats_def day_of_def zero_day_def)
  have dur: "duration ex_late_clock = 14400000000" by (simp add: ex_late_clock_def)
  have h1: "duration ex_late_clock = clk_end ex_late_clock - clk_start ex_late_clock"
    by (simp add: ex_late_clock_def)
  have h2: "ivl_end ex_late_matched < clk_end ex_late_clock"
    by (simp add: ex_late_clock_def ex_late_matched_def)
  from added_time_counts_full_duration[OF ex_late_match t g, of zero_stats]
  obtain st' where
    a: "clock_body ex_args ex_settings ex_late_node False ex_late_clock zero_stats ex_jira =
      (Inr st', [''PROJ-42'' \<mapsto> [\<lparr>started = 1704232800000000, timeSpentSeconds = 7200,
        comment = ''PROJ-42 review''\<rparr>]])"
    and b: "day_added_time (day_of (per_day st') (date (clk_start ex_late_clock))) =
       day_added_time (day_of (per_day zero_stats) (date (clk_start ex_late_clock)))
         + duration ex_late_clock"
    and c: "duration ex_late_clock = clk_end ex_late_clock - clk_start ex_late_clock \<and>
      ivl_end ex_late_matched < clk_end ex_late_clock \<longrightarrow>
        td_seconds (ivl_end ex_late_matched - ivl_start ex_late_matched) * usec_per_second
          \<le> ivl_end ex_late_matched - ivl_start ex_late_matched \<and>
        ivl_end ex_late_matched - ivl_start ex_late_matched < duration ex_late_clock"
    by blast
  from b have b': "day_added_time (day_of (per_day st') 19724) = 14400000000"
    by (simp add: d z dur)
  from c h1 h2 have c': "td_seconds (ivl_end ex_late_matched - ivl_start ex_late_matched)
      * usec_per_second < duration ex_late_clock"
    by linarith
  from a b' c' h1 h2 show ?thesis by blast
qed

section \<open>Idempotence of synchronization\<close>

lemma grows_refl: "grows j j"
  by (auto simp: grows_def split: option.splits)

lemma grows_trans: "grows j1 j2 \<Longrightarrow> grows j2 j3 \<Longrightarrow> grows j1 j3"
  unfolding grows_def
proof
  fix k
  assume a: "\<forall>k. case j1 k of None \<Rightarrow> j2 k = None | Some ws \<Rightarrow> \<exists>ws'. j2 k = Some (ws @ ws')"
    and b: "\<forall>k. case j2 k of None \<Rightarrow> j3 k = None | Some ws \<Rightarrow> \<exists>ws'. j3 k = Some (ws @ ws')"
  show "case j1 k of None \<Rightarrow> j3 k = None | Some ws \<Rightarrow> \<exists>ws'. j3 k = Some (ws @ ws')"
  proof (cases "j1 k")
    case None
    with a[rule_format, of k] b[rule_format, of k] show ?thesis by simp
  next
    case (Some ws)
    with a[rule_format, of k] obtain ws' where "j2 k = Some (ws @ ws')" by auto
    with b[rule_format, of k] obtain ws'' where "j3 k = Some ((ws @ ws') @ ws'')" by auto
    with Some show ?thesis by simp
  qed
qed

lemma grows_None: "grows j j' \<Longrightarrow> j k = None \<Longrightarrow> j' k = None"
  by (auto simp: grows_def split: option.splits dest: spec[of _ k])

lemma grows_Some: "grows j j' \<Longrightarrow> j k = Some ws \<Longrightarrow> \<exists>ws'. j' k = Some (ws @ ws')"
  by (auto simp: grows_def split: option.splits dest: spec[of _ k])

lemma gate_grows:
  "grows jira (snd (send_interval_to_jira jira key interval description q s))"
  by (auto simp: gate_cases grows_def jira_worklogs_def split: option.splits)

lemma gate_quiet:
  assumes g: "grows (snd (send_interval_to_jira jira key interval description True s)) j'"
  shows "snd (send_interval_to_jira j' key interval description True s) = j' \<and>
         isl (fst (send_interval_to_jira j' key interval description True s)) =
         isl (fst (send_interval_to_jira jira key interval description True s))"
proof (cases "jira key")
  case None
  then have "snd (send_interval_to_jira jira key interval description True s) = jira"
    by (simp add: gate_cases)
  with g have "j' key = None" using None grows_None by metis
  with None show ?thesis by (simp add: gate_cases)
next
  case (Some ws)
  show ?thesis
  proof (cases "worklog_loop ws interval")
    case True
    with Some have "snd (send_interval_to_jira jira key interval description True s) = jira"
      by (simp add: gate_cases jira_worklogs_def)
    with g Some obtain ws' where "j' key = Some (ws @ ws')" using grows_Some by metis
    with True Some show ?thesis
      by (auto simp: gate_cases jira_worklogs_def worklog_loop_iff)
  next
    case False
    show ?thesis
    proof (cases "s \<and> td_seconds (ivl_end interval - ivl_start interval) \<noteq> 0")
      case True
      with Some False have "snd (send_interval_to_jira jira key interval description True s) key
         = Some (ws @ [\<lparr>started = ivl_start interval,
              timeSpentSeconds = td_seconds (ivl_end interval - ivl_start interval),
              comment = description\<rparr>])"
        by (simp add: gate_cases jira_worklogs_def)
      with g obtain ws' where "j' key = Some ((ws @ [\<lparr>started = ivl_start interval,
              timeSpentSeconds = td_seconds (ivl_end interval - ivl_start interval),
              comment = description\<rparr>]) @ ws')" using grows_Some by metis
      with True Some False show ?thesis
        by (auto simp: gate_cases jira_worklogs_def worklog_loop_iff)
    next
      case F: False
      with Some False have "snd (send_interval_to_jira jira key interval description True s) = jira"
        by (auto simp add: gate_cases jira_worklogs_def)
      with g Some obtain ws' where "j' key = Some (ws @ ws')" using grows_Some by metis
      with F Some False show ?thesis
        by (auto simp: gate_cases jira_worklogs_def)
    qed
  qed
qed

lemma for_each_grows:
  assumes "\<And>x st j. x \<in> set xs \<Longrightarrow> grows j (snd (body x st j))"
  shows "grows j (snd (for_each body xs st j))"
  using assms
proof (induction xs arbitrary: st j)
  case Nil
  show ?case by (simp add: grows_refl)
next
  case (Cons x xs)
  have px: "grows j (snd (body x st j))" by (rule Cons.prems) simp
  have pxs: "\<And>y st j. y \<in> set xs \<Longrightarrow> grows j (snd (body y st j))"
    by (rule Cons.prems) simp
  have ih: "\<And>st j. grows j (snd (for_each body xs st j))"
    by (rule Cons.IH) (rule pxs)
  obtain r j1 where b: "body x st j = (r, j1)" by (cases "body x st j")
  from px b have g1: "grows j j1" by simp
  show ?case
  proof (cases r)
    case (Inl e)
    with b g1 show ?thesis by simp
  next
    case (Inr st1)
    have "grows j1 (snd (for_each body xs st1 j1))" by (rule ih)
    with g1 have "grows j (snd (for_each body xs st1 j1))" by (rule grows_trans)
    with b Inr show ?thesis by simp
  qed
qed

lemma for_each_quiet:
  assumes G: "\<And>x st j. x \<in> set xs \<Longrightarrow> grows j (snd (body x st j))"
    and Q: "\<And>x st j st' j'. x \<in> set xs \<Longrightarrow> grows (snd (body x st j)) j' \<Longrightarrow>
              snd (body x st' j') = j' \<and> isl (fst (body x st' j')) = isl (fst (body x st j))"
    and g: "grows (snd (for_each body xs st j)) j'"
  shows "snd (for_each body xs st' j') = j' \<and>
         isl (fst (for_each body xs st' j')) = isl (fst (for_each body xs st j))"
  using assms
proof (induction xs arbitrary: st j st')
  case Nil
  show ?case by simp
next
  case (Cons x xs)
  have Gxs: "\<And>y st j. y \<in> set xs \<Longrightarrow> grows j (snd (body y st j))"
    by (rule Cons.prems(1)) simp
  have Qx: "\<And>st j st' j'. grows (snd (body x st j)) j' \<Longrightarrow>
              snd (body x st' j') = j' \<and> isl (fst (body x st' j')) = isl (fst (body x st j))"
    by (rule Cons.prems(2)) simp_all
  have Qxs: "\<And>y st j st' j'. y \<in> set xs \<Longrightarrow> grows (snd (body y st j)) j' \<Longrightarrow>
              snd (body y st' j') = j' \<and> isl (fst (body y st' j')) = isl (fst (body y st j))"
    by (rule Cons.prems(2)) simp_all
  have ih: "\<And>st j st'. grows (snd (for_each body xs st j)) j' \<Longrightarrow>
      snd (for_each body xs st' j') = j' \<and>
      isl (fst (for_each body xs st' j')) = isl (fst (for_each body xs st j))"
    by (rule Cons.IH[OF Gxs Qxs])
  obtain r j1 where b: "body x st j = (r, j1)" by (cases "body x st j")
  obtain r' j1' where b': "body x st' j' = (r', j1')" by (cases "body x st' j'")
  show ?case
  proof (cases r)
    case (Inl e)
    with b Cons.prems(3) have "grows (snd (body x st j)) j'" by simp
    then have "snd (body x st' j') = j' \<and> isl (fst (body x st' j')) = isl (fst (body x st j))"
      by (rule Qx)
    with b b' Inl have "j1' = j'" and "isl r'" by simp_all
    then obtain e' where "r' = Inl e'" by (cases r') simp_all
    with b b' Inl \<open>j1' = j'\<close> show ?thesis by simp
  next
    case (Inr st1)
    have gx: "grows j1 (snd (for_each body xs st1 j1))"
      by (rule for_each_grows) (rule Gxs)
    from b Inr Cons.prems(3) have gl: "grows (snd (for_each body xs st1 j1)) j'" by simp
    with gx have "grows j1 j'" by (rule grows_trans)
    with b have "grows (snd (body x st j)) j'" by simp
    then have "snd (body x st' j') = j' \<and> isl (fst (body x st' j')) = isl (fst (body x st j))"
      by (rule Qx)
    with b b' Inr have j1': "j1' = j'" and "\<not> isl r'" by simp_all
    then obtain st1' where r': "r' = Inr st1'" by (cases r') simp_all
    have "snd (for_each body xs st1' j') = j' \<and>
         isl (fst (for_each body xs st1' j')) = isl (fst (for_each body xs st1 j1))"
      using gl by (rule ih)
    with b b' Inr r' j1' show ?thesis by simp
  qed
qed

lemma clock_body_grows:
  "grows j (snd (clock_body args settings node skip c st j))"
proof (cases "match_lookup_intervals (args_intervals args) (clk_start c) (clk_end c)")
  case None
  then show ?thesis by (simp add: clock_body_def grows_refl)
next
  case (Some m)
  show ?thesis
  proof (cases "truthy (find_jira_issue node settings) \<and> \<not> skip")
    case False
    with Some show ?thesis by (auto simp: clock_body_def Let_def grows_refl)
  next
    case True
    have "snd (clock_body args settings node skip c st j) =
        snd (send_interval_to_jira j (the (find_jira_issue node settings)) m (heading node)
               (args_query_jira args) (args_send_data_to_jira args))"
      using Some True
      by (auto simp: clock_body_def Let_def split: prod.splits sum.splits)
    then show ?thesis by (simp add: gate_grows)
  qed
qed

lemma clock_body_quiet:
  assumes q: "args_query_jira args"
    and g: "grows (snd (clock_body args settings node skip c st j)) j'"
  shows "snd (clock_body args settings node skip c st' j') = j' \<and>
         isl (fst (clock_body args settings node skip c st' j')) =
         isl (fst (clock_body args settings node skip c st j))"
proof (cases "match_lookup_intervals (args_intervals args) (clk_start c) (clk_end c)")
  case None
  then show ?thesis by (simp add: clock_body_def)
next
  case (Some m)
  show ?thesis
  proof (cases "truthy (find_jira_issue node settings) \<and> \<not> skip")
    case False
    with Some show ?thesis by (auto simp: clock_body_def Let_def)
  next
    case True
    let ?G = "\<lambda>j. send_interval_to_jira j (the (find_jira_issue node settings)) m (heading node)
                 True (args_send_data_to_jira args)"
    have e: "\<And>st j. snd (clock_body args settings node skip c st j) = snd (?G j) \<and>
                isl (fst (clock_body args settings node skip c st j)) = isl (fst (?G j))"
      using Some True q
      by (auto simp: clock_body_def Let_def split: prod.splits sum.splits)
    from g e have "grows (snd (?G j)) j'" by simp
    from gate_quiet[OF this] e show ?thesis by simp
  qed
qed

lemma node_body_grows: "grows j (snd (node_body args settings node st j))"
proof (cases "clock node = []")
  case True
  then show ?thesis by (simp add: node_body_def grows_refl)
next
  case False
  have "grows j (snd (for_each (clock_body args settings node
      (truthy (properties node ''jira-skip''))) (clock node) st j))"
    by (rule for_each_grows) (rule clock_body_grows)
  with False show ?thesis by (simp add: node_body_def)
qed

lemma node_body_quiet:
  assumes q: "args_query_jira args"
    and g: "grows (snd (node_body args settings node st j)) j'"
  shows "snd (node_body args settings node st' j') = j' \<and>
         isl (fst (node_body args settings node st' j')) =
         isl (fst (node_body args settings node st j))"
proof (cases "clock node = []")
  case True
  then show ?thesis by (simp add: node_body_def)
next
  case False
  with g have "grows (snd (for_each (clock_body args settings node
      (truthy (properties node ''jira-skip''))) (clock node) st j)) j'"
    by (simp add: node_body_def)
  then have "snd (for_each (clock_body args settings node
      (truthy (properties node ''jira-skip''))) (clock node) st' j') = j' \<and>
     isl (fst (for_each (clock_body args settings node
      (truthy (properties node ''jira-skip''))) (clock node) st' j')) =
     isl (fst (for_each (clock_body args settings node
      (truthy (properties node ''jira-skip''))) (clock node) st j))"
  proof (rule for_each_quiet[rotated 2])
    fix x st j
    show "grows j (snd (clock_body args settings node (truthy (properties node ''jira-skip'')) x st j))" by (rule clock_body_grows)
  next
    fix x st j st' j'
    assume "grows (snd (clock_body args settings node (truthy (properties node ''jira-skip'')) x st j)) j'"
    then show "snd (clock_body args settings node (truthy (properties node ''jira-skip'')) x st' j') = j' \<and>
        isl (fst (clock_body args settings node (truthy (properties node ''jira-skip'')) x st' j')) = isl (fst (clock_body args settings node (truthy (properties node ''jira-skip'')) x st j))"
      by (rule clock_body_quiet[OF q])
  qed
  with False show ?thesis by (simp add: node_body_def)
qed

lemma file_body_grows: "grows j (snd (file_body args settings files path st j))"
proof (cases "files path")
  case None
  then show ?thesis by (simp add: file_body_def grows_refl)
next
  case (Some root)
  have "grows j (snd (for_each (node_body args settings) (drop 1 root) st j))"
    by (rule for_each_grows) (rule node_body_grows)
  with Some show ?thesis by (simp add: file_body_def)
qed

lemma file_body_quiet:
  assumes q: "args_query_jira args"
    and g: "grows (snd (file_body args settings files path st j)) j'"
  shows "snd (file_body args settings files path st' j') = j' \<and>
         isl (fst (file_body args settings files path st' j')) =
         isl (fst (file_body args settings files path st j))"
proof (cases "files path")
  case None
  then show ?thesis by (simp add: file_body_def)
next
  case (Some root)
  with g have "grows (snd (for_each (node_body args settings) (drop 1 root) st j)) j'"
    by (simp add: file_body_def)
  then have "snd (for_each (node_body args settings) (drop 1 root) st' j') = j' \<and>
     isl (fst (for_each (node_body args settings) (drop 1 root) st' j')) =
     isl (fst (for_each (node_body args settings) (drop 1 root) st j))"
  proof (rule for_each_quiet[rotated 2])
    fix x st j
    show "grows j (snd (node_body args settings x st j))" by (rule node_body_grows)
  next
    fix x st j st' j'
    assume "grows (snd (node_body args settings x st j)) j'"
    then show "snd (node_body args settings x st' j') = j' \<and>
        isl (fst (node_body args settings x st' j')) = isl (fst (node_body args settings x st j))"
      by (rule node_body_quiet[OF q])
  qed
  with Some show ?thesis by (simp add: file_body_def)
qed

lemma ex_first_run:
  "snd (send_data_to_jira ex_args ex_settings ex_files ex_jira) = [''PROJ-42'' \<mapsto> [ex_worklog]]"
proof -
  obtain st' where c: "clock_body ex_args ex_settings ex_node False ex_clock zero_stats ex_jira =
     (Inr st', [''PROJ-42'' \<mapsto> [ex_worklog]])"
    using ex_clock_body by blast
  have s: "truthy (properties ex_node ''jira-skip'') = False"
    by (simp add: ex_node_def truthy_def)
  have k: "clock ex_node = [ex_clock]" by (simp add: ex_node_def)
  have n: "node_body ex_args ex_settings ex_node zero_stats ex_jira =
     (Inr st', [''PROJ-42'' \<mapsto> [ex_worklog]])"
    by (simp add: node_body_def s k c)
  have f: "file_body ex_args ex_settings ex_files ''work.org'' zero_stats ex_jira =
     (Inr st', [''PROJ-42'' \<mapsto> [ex_worklog]])"
    by (simp add: file_body_def ex_files_def n)
  have o: "org_files ex_settings = [''work.org'']" by (simp add: ex_settings_def)
  show ?thesis by (simp add: send_data_to_jira_def o f)
qed

text \<open>
  When the second run meets the tags of every node in the order the first run met them,
  and the remote query is on, the second run writes nothing: the tracker after it is the
  tracker after the first run (also when the first run was ended by an exception).
\<close>

lemma second_run_same_order_writes_nothing:
  assumes "args_query_jira args"
  shows "snd (send_data_to_jira args settings files
              (snd (send_data_to_jira args settings files jira))) =
         snd (send_data_to_jira args settings files jira)"
proof -
  have "grows (snd (for_each (file_body args settings files) (org_files settings) zero_stats jira))
          (snd (send_data_to_jira args settings files jira))"
    by (simp add: send_data_to_jira_def grows_refl)
  then have "snd (for_each (file_body args settings files) (org_files settings) zero_stats
                (snd (send_data_to_jira args settings files jira))) =
             snd (send_data_to_jira args settings files jira) \<and>
     isl (fst (for_each (file_body args settings files) (org_files settings) zero_stats
                (snd (send_data_to_jira args settings files jira)))) =
     isl (fst (for_each (file_body args settings files) (org_files settings) zero_stats jira))"
  proof (rule for_each_quiet[rotated 2])
    fix x st j
    show "grows j (snd (file_body args settings files x st j))" by (rule file_body_grows)
  next
    fix x st j st' j'
    assume "grows (snd (file_body args settings files x st j)) j'"
    then show "snd (file_body args settings files x st' j') = j' \<and>
        isl (fst (file_body args settings files x st' j')) = isl (fst (file_body args settings files x st j))"
      by (rule file_body_quiet[OF assms])
  qed
  then show ?thesis by (simp add: send_data_to_jira_def)
qed

lemma ex_second_run_same_order:
  "args_query_jira ex_args \<and>
   snd (send_data_to_jira ex_args ex_settings ex_files ex_jira) = [''PROJ-42'' \<mapsto> [ex_worklog]] \<and>
   snd (send_data_to_jira ex_args ex_settings ex_files [''PROJ-42'' \<mapsto> [ex_worklog]]) =
     [''PROJ-42'' \<mapsto> [ex_worklog]]"
proof -
  have q: "args_query_jira ex_args" by (simp add: ex_args_def)
  from second_run_same_order_writes_nothing[OF q, of ex_settings ex_files ex_jira] q
  show ?thesis by (simp add: ex_first_run)
qed

lemma clock_body_tracker:
  assumes "match_lookup_intervals (args_intervals args) (clk_start c) (clk_end c) = Some m"
    and "find_jira_issue node settings = Some key" and "key \<noteq> []"
  shows "snd (clock_body args settings node False c st j) =
     snd (send_interval_to_jira j key m (heading node) (args_query_jira args)
            (args_send_data_to_jira args))"
  using assms
  by (auto simp: clock_body_def Let_def truthy_def split: prod.splits sum.splits)

lemma for_each_single: "snd (for_each body [x] st j) = snd (body x st j)"
  by (auto split: prod.splits sum.splits)

lemma run_single_tracker:
  assumes "org_files settings = [path]" and "files path = Some [root, node]"
    and "clock node = [c]" and "\<not> truthy (properties node ''jira-skip'')"
    and "match_lookup_intervals (args_intervals args) (clk_start c) (clk_end c) = Some m"
    and "find_jira_issue node settings = Some key" and "key \<noteq> []"
  shows "snd (send_data_to_jira args settings files j) =
     snd (send_interval_to_jira j key m (heading node) (args_query_jira args)
            (args_send_data_to_jira args))"
proof -
  have "snd (send_data_to_jira args settings files j) =
      snd (file_body args settings files path zero_stats j)"
    using assms(1) by (simp add: send_data_to_jira_def for_each_single del: for_each.simps)
  also have "\<dots> = snd (node_body args settings node zero_stats j)"
    using assms(2) by (simp add: file_body_def for_each_single del: for_each.simps)
  also have "\<dots> = snd (clock_body args settings node False c zero_stats j)"
    using assms(3,4) by (simp add: node_body_def for_each_single del: for_each.simps)
  also have "\<dots> = snd (send_interval_to_jira j key m (heading node) (args_query_jira args)
            (args_send_data_to_jira args))"
    using assms(5,6,7) by (rule clock_body_tracker)
  finally show ?thesis .
qed

lemma ex_tag_resolves:
  "find_jira_issue ex_tag_node ex_tag_settings = Some ''OPS-1''"
  "find_jira_issue ex_tag_node_again ex_tag_settings = Some ''DEV-2''"
  by (simp_all add: find_jira_issue.simps ex_tag_node_def ex_tag_node_again_def
      ex_tag_settings_def py_or_def truthy_def find_issue_in_property_def
      find_issue_in_heading_def find_issue_by_tag_def ex_root_def)

text \<open>
  Claim C9, at a node with the tags \<open>ops\<close> and \<open>dev\<close>, configured for the issues
  \<open>OPS-1\<close> and \<open>DEV-2\<close>, with the remote query and the write flag on. The first run
  meets \<open>ops\<close> first and logs the entry to \<open>OPS-1\<close>. The second run reads the same
  document, meets \<open>dev\<close> first, resolves the node to \<open>DEV-2\<close>, finds no work-log
  there and creates one: the second run writes.
\<close>

theorem second_run_other_tag_order_writes:
  "same_documents ex_tag_files ex_tag_files_again \<and>
   snd (send_data_to_jira ex_args ex_tag_settings ex_tag_files ex_tag_jira) ''OPS-1''
     = Some [ex_tag_worklog] \<and>
   snd (send_data_to_jira ex_args ex_tag_settings ex_tag_files ex_tag_jira) ''DEV-2''
     = Some [] \<and>
   snd (send_data_to_jira ex_args ex_tag_settings ex_tag_files_again
          (snd (send_data_to_jira ex_args ex_tag_settings ex_tag_files ex_tag_jira))) ''DEV-2''
     = Some [ex_tag_worklog]"
proof -
  have sd: "same_documents ex_tag_files ex_tag_files_again"
    by (auto simp: same_documents_def ex_tag_files_def ex_tag_files_again_def ex_tag_node_def
        ex_tag_node_again_def ex_root_def)
  have q: "args_query_jira ex_args = True" "args_send_data_to_jira ex_args = True"
    by (simp_all add: ex_args_def)
  have o: "org_files ex_tag_settings = [''work.org'']" by (simp add: ex_tag_settings_def)
  have r1: "snd (send_data_to_jira ex_args ex_tag_settings ex_tag_files ex_tag_jira) =
      snd (send_interval_to_jira ex_tag_jira ''OPS-1'' ex_matched ''review'' True True)"
    using run_single_tracker[of ex_tag_settings "''work.org''" ex_tag_files ex_root ex_tag_node
        ex_clock ex_args ex_matched "''OPS-1''" ex_tag_jira]
    by (simp add: o ex_tag_files_def ex_match ex_tag_resolves q)
      (simp add: ex_tag_node_def truthy_def)
  have g1: "snd (send_interval_to_jira ex_tag_jira ''OPS-1'' ex_matched ''review'' True True) =
      ex_tag_jira(''OPS-1'' \<mapsto> [ex_tag_worklog])"
    by (simp add: gate_cases jira_worklogs_def td_seconds_def usec_per_second_def
        seconds_per_day_def ex_tag_jira_def ex_matched_def ex_tag_worklog_def)
  have r2: "snd (send_data_to_jira ex_args ex_tag_settings ex_tag_files_again
          (ex_tag_jira(''OPS-1'' \<mapsto> [ex_tag_worklog]))) =
      snd (send_interval_to_jira (ex_tag_jira(''OPS-1'' \<mapsto> [ex_tag_worklog])) ''DEV-2''
        ex_matched ''review'' True True)"
    using run_single_tracker[of ex_tag_settings "''work.org''" ex_tag_files_again ex_root
        ex_tag_node_again ex_clock ex_args ex_matched "''DEV-2''"
        "ex_tag_jira(''OPS-1'' \<mapsto> [ex_tag_worklog])"]
    by (simp add: o ex_tag_files_again_def ex_match ex_tag_resolves q)
      (simp add: ex_tag_node_again_def truthy_def)
  have g2: "snd (send_interval_to_jira (ex_tag_jira(''OPS-1'' \<mapsto> [ex_tag_worklog])) ''DEV-2''
        ex_matched ''review'' True True) ''DEV-2'' = Some [ex_tag_worklog]"
    by (simp add: gate_cases jira_worklogs_def td_seconds_def usec_per_second_def
        seconds_per_day_def ex_tag_jira_def ex_matched_def ex_tag_worklog_def)
  have d: "ex_tag_jira ''DEV-2'' = Some []" by (simp add: ex_tag_jira_def)
  show ?thesis
    using sd d g2 by (simp add: r1 g1 r2)
qed

end
